theory Spec2Isabelle
  imports Complex_Main "HOL-Library.Char_ord" "HOL-Library.List_Lexorder"
begin

section \<open>Values read from the telemetry file\<close>

text \<open>
  The values that \<^verbatim>\<open>json.loads\<close> returns.  Numbers are rationals (Python's \<^verbatim>\<open>int\<close> and
  an idealised \<^verbatim>\<open>float\<close>; the literals \<^verbatim>\<open>NaN\<close> and \<^verbatim>\<open>Infinity\<close> are outside the
  model), a JSON object is the list of its members in the order of the text, where a repeated
  key takes its last value as in Python.  Strings are lists of 8-bit characters and stand for
  ASCII text: where Python's behaviour on a string depends on Unicode (\<^verbatim>\<open>str.upper\<close>,
  \<^verbatim>\<open>str.lower\<close>, the digits and blanks that \<^verbatim>\<open>int\<close> accepts), the functions below are
  Python's on code points below 128 only.
\<close>

datatype json =
    JNull
  | JBool bool
  | JNum rat
  | JStr string
  | JArr "json list"
  | JObj "(string \<times> json) list"

text \<open>
  What the file gives for one line.  \<^verbatim>\<open>for line in f\<close> decodes the bytes of the file and
  raises \<^verbatim>\<open>UnicodeDecodeError\<close> on bytes that are not text in the file's encoding
  (\<open>Undecodable\<close>).  A line of text goes through \<^verbatim>\<open>json.loads(line.strip())\<close>, and the
  analyzer is modelled on the outcome of that call: \<open>Not_json\<close> when it raises
  \<^verbatim>\<open>JSONDecodeError\<close> (or the plain \<^verbatim>\<open>ValueError\<close> of an integer literal with too many
  digits), \<open>Too_deep\<close> when it raises \<^verbatim>\<open>RecursionError\<close> on arrays or objects nested deeper
  than the interpreter's recursion limit, \<open>Loaded\<close> with the decoded value otherwise.
\<close>

datatype loaded = Not_json | Too_deep | Loaded json

datatype line = Undecodable | Text loaded

datatype exn =
    JSONDecodeError
  | ValueError
  | TypeError
  | KeyError
  | AttributeError
  | StatisticsError
  | UnicodeDecodeError
  | RecursionError

text \<open>
  \<^verbatim>\<open>except (json.JSONDecodeError, ValueError, TypeError): continue\<close>.
  \<^verbatim>\<open>UnicodeDecodeError\<close> is a subclass of \<^verbatim>\<open>ValueError\<close>; \<^verbatim>\<open>RecursionError\<close> is a
  \<^verbatim>\<open>RuntimeError\<close>, \<^verbatim>\<open>KeyError\<close> a \<^verbatim>\<open>LookupError\<close>, and these two like
  \<^verbatim>\<open>AttributeError\<close> and \<^verbatim>\<open>StatisticsError\<close> are of none of the three classes.
\<close>

definition caught :: "exn \<Rightarrow> bool" where
  "caught e = (e = JSONDecodeError \<or> e = ValueError \<or> e = TypeError \<or> e = UnicodeDecodeError)"

definition bind_exn :: "exn + 'a \<Rightarrow> ('a \<Rightarrow> exn + 'b) \<Rightarrow> exn + 'b" where
  "bind_exn r f = (case r of Inl e \<Rightarrow> Inl e | Inr x \<Rightarrow> f x)"

subsection \<open>Python primitives on decoded values\<close>

text \<open>\<^verbatim>\<open>d.get(k, default)\<close> on a dict built from a JSON object.\<close>

definition dict_get :: "(string \<times> json) list \<Rightarrow> string \<Rightarrow> json \<Rightarrow> json" where
  "dict_get kvs k d = (case map_of (rev kvs) k of None \<Rightarrow> d | Some v \<Rightarrow> v)"

text \<open>Truth value of an object in \<^verbatim>\<open>if x:\<close>.\<close>

fun truthy :: "json \<Rightarrow> bool" where
  "truthy JNull = False"
| "truthy (JBool b) = b"
| "truthy (JNum r) = (r \<noteq> 0)"
| "truthy (JStr s) = (s \<noteq> [])"
| "truthy (JArr xs) = (xs \<noteq> [])"
| "truthy (JObj kvs) = (kvs \<noteq> [])"

text \<open>\<^verbatim>\<open>value > 0\<close>: numbers and booleans compare, anything else raises \<^verbatim>\<open>TypeError\<close>.\<close>

fun py_gt0 :: "json \<Rightarrow> exn + bool" where
  "py_gt0 (JNum r) = Inr (0 < r)"
| "py_gt0 (JBool b) = Inr b"
| "py_gt0 _ = Inl TypeError"

text \<open>The number a value stands for in arithmetic (\<^verbatim>\<open>True\<close> is 1).\<close>

fun py_num :: "json \<Rightarrow> rat" where
  "py_num (JNum r) = r"
| "py_num (JBool b) = (if b then 1 else 0)"
| "py_num _ = 0"

text \<open>
  \<^verbatim>\<open>int(s)\<close> on an ASCII string skips blanks at both ends: the space and the characters 9
  to 13.  (The separators 28 to 31, which \<^verbatim>\<open>str.strip\<close> removes, are not among them:
  \<^verbatim>\<open>int('\x1c404')\<close> raises \<^verbatim>\<open>ValueError\<close>.)  Its digits are the ASCII digits; the
  decimal digits of other scripts, which Python accepts too, are outside the model.
\<close>

definition is_space :: "char \<Rightarrow> bool" where
  "is_space c = (c \<in> set [CHR '' '', CHR 0x09, CHR 0x0A, CHR 0x0B, CHR 0x0C, CHR 0x0D])"

definition is_digit :: "char \<Rightarrow> bool" where
  "is_digit c = (CHR ''0'' \<le> c \<and> c \<le> CHR ''9'')"

definition digit_val :: "char \<Rightarrow> nat" where
  "digit_val c = of_char c - 48"

definition skip_spaces :: "string \<Rightarrow> string" where
  "skip_spaces s = rev (dropWhile is_space (rev (dropWhile is_space s)))"

text \<open>
  The digits of a decimal literal as \<^verbatim>\<open>int(s)\<close> accepts them: one or more digits, single
  underscores allowed between two digits.  (The limit of 4300 digits, beyond which Python
  raises \<^verbatim>\<open>ValueError\<close>, is not modelled.)
\<close>

fun digits_acc :: "nat \<Rightarrow> string \<Rightarrow> nat option" where
  "digits_acc a [] = Some a"
| "digits_acc a [c] = (if is_digit c then Some (10 * a + digit_val c) else None)"
| "digits_acc a (c # d # ds) =
     (if is_digit c then digits_acc (10 * a + digit_val c) (d # ds)
      else if c = CHR ''_'' \<and> is_digit d then digits_acc (10 * a + digit_val d) ds
      else None)"

definition parse_nat :: "string \<Rightarrow> nat option" where
  "parse_nat s = (case s of [] \<Rightarrow> None
                  | c # cs \<Rightarrow> if is_digit c then digits_acc (digit_val c) cs else None)"

definition int_of_str :: "string \<Rightarrow> exn + int" where
  "int_of_str s =
     (case skip_spaces s of
        [] \<Rightarrow> Inl ValueError
      | c # cs \<Rightarrow>
          if c = CHR ''-'' then (case parse_nat cs of None \<Rightarrow> Inl ValueError
                                 | Some n \<Rightarrow> Inr (- int n))
          else if c = CHR ''+'' then (case parse_nat cs of None \<Rightarrow> Inl ValueError
                                      | Some n \<Rightarrow> Inr (int n))
          else (case parse_nat (c # cs) of None \<Rightarrow> Inl ValueError
                | Some n \<Rightarrow> Inr (int n)))"

text \<open>\<^verbatim>\<open>int(x)\<close>: a string is parsed, a number is truncated towards zero.\<close>

fun py_int :: "json \<Rightarrow> exn + int" where
  "py_int (JStr s) = int_of_str s"
| "py_int (JNum r) = Inr (if 0 \<le> r then \<lfloor>r\<rfloor> else \<lceil>r\<rceil>)"
| "py_int (JBool b) = Inr (if b then 1 else 0)"
| "py_int _ = Inl TypeError"

text \<open>
  \<^verbatim>\<open>s.upper()\<close> and \<^verbatim>\<open>s.lower()\<close> on ASCII strings: the letters a to z and A to Z change
  case, every other character stays.
\<close>

definition upper_char :: "char \<Rightarrow> char" where
  "upper_char c = (if CHR ''a'' \<le> c \<and> c \<le> CHR ''z'' then char_of (of_char c - (32::nat)) else c)"

definition lower_char :: "char \<Rightarrow> char" where
  "lower_char c = (if CHR ''A'' \<le> c \<and> c \<le> CHR ''Z'' then char_of (of_char c + (32::nat)) else c)"

definition upper :: "string \<Rightarrow> string" where
  "upper s = map upper_char s"

definition lower :: "string \<Rightarrow> string" where
  "lower s = map lower_char s"

text \<open>\<^verbatim>\<open>sub in s\<close> on two strings.\<close>

fun contains :: "string \<Rightarrow> string \<Rightarrow> bool" where
  "contains sub [] = (sub = [])"
| "contains sub (c # cs) = (take (length sub) (c # cs) = sub \<or> contains sub cs)"

text \<open>
  \<^verbatim>\<open>sub in x\<close> for a string \<open>sub\<close> and a decoded value \<open>x\<close>: substring of a string, element
  of a list, key of a dict; \<^verbatim>\<open>TypeError\<close> on a number, a boolean or \<^verbatim>\<open>None\<close>.
\<close>

fun py_in :: "string \<Rightarrow> json \<Rightarrow> exn + bool" where
  "py_in sub (JStr s) = Inr (contains sub s)"
| "py_in sub (JArr xs) = Inr (JStr sub \<in> set xs)"
| "py_in sub (JObj kvs) = Inr (sub \<in> set (map fst kvs))"
| "py_in sub _ = Inl TypeError"

text \<open>\<^verbatim>\<open>x.upper()\<close>: only a string has the method.\<close>

fun py_upper :: "json \<Rightarrow> exn + string" where
  "py_upper (JStr s) = Inr (upper s)"
| "py_upper _ = Inl AttributeError"

text \<open>\<^verbatim>\<open>s.lstrip('/')\<close>\<close>

definition lstrip_slash :: "string \<Rightarrow> string" where
  "lstrip_slash s = dropWhile (\<lambda>c. c = CHR ''/'') s"

text \<open>\<^verbatim>\<open>s.split('/')\<close>\<close>

fun split_slash :: "string \<Rightarrow> string list" where
  "split_slash [] = [[]]"
| "split_slash (c # cs) =
     (if c = CHR ''/'' then [] # split_slash cs
      else (case split_slash cs of [] \<Rightarrow> [[c]] | s # ss \<Rightarrow> (c # s) # ss))"

text \<open>
  A value inside an f-string.  A string is inserted as it is; the text of any other value
  (\<^verbatim>\<open>str(x)\<close>) is Python's business and is the parameter \<open>fmt\<close> of the model.
\<close>

definition py_format :: "(json \<Rightarrow> string) \<Rightarrow> json \<Rightarrow> string" where
  "py_format fmt x = (case x of JStr s \<Rightarrow> s | _ \<Rightarrow> fmt x)"

text \<open>
  A value used as a dict key: lists and dicts are unhashable (\<^verbatim>\<open>TypeError\<close>), and
  \<^verbatim>\<open>True\<close>/\<^verbatim>\<open>False\<close> are the same keys as 1/0.
\<close>

fun py_key :: "json \<Rightarrow> exn + json" where
  "py_key (JArr xs) = Inl TypeError"
| "py_key (JObj kvs) = Inl TypeError"
| "py_key (JBool b) = Inr (JNum (if b then 1 else 0))"
| "py_key x = Inr x"

section \<open>Endpoint configuration\<close>

text \<open>
  \<^verbatim>\<open>endpoints.json\<close> as \<^verbatim>\<open>load_routes_config\<close> returns it.  A field that is absent is
  \<open>None\<close>; \<open>endpoints = None\<close> is a configuration without the key, which includes the
  empty dict returned when no file is found.
\<close>

record endpoint_cfg =
  cfg_name :: "string option"
  cfg_method :: "string option"
  cfg_url :: "string option"
  cfg_description :: "string option"
  cfg_threshold_ms :: "rat option"

record routes_config =
  endpoints :: "endpoint_cfg list option"

definition get_or :: "'a option \<Rightarrow> 'a \<Rightarrow> 'a" where
  "get_or x d = (case x of None \<Rightarrow> d | Some v \<Rightarrow> v)"

text \<open>The loop of \<^verbatim>\<open>get_endpoint_info_from_config\<close> over \<^verbatim>\<open>config['endpoints']\<close>.\<close>

fun match_endpoints :: "json \<Rightarrow> json \<Rightarrow> endpoint_cfg list \<Rightarrow> exn + (string option \<times> string option)" where
  "match_endpoints url method [] = Inr (None, None)"
| "match_endpoints url method (endpoint # rest) =
     (let endpoint_url = get_or (cfg_url endpoint) '''';
          endpoint_method = get_or (cfg_method endpoint) ''GET'';
          endpoint_name = get_or (cfg_name endpoint) '''';
          clean_endpoint_url = lstrip_slash endpoint_url
      in case py_in clean_endpoint_url url of
           Inl e \<Rightarrow> Inl e
         | Inr False \<Rightarrow> match_endpoints url method rest
         | Inr True \<Rightarrow>
             (case py_upper method of
                Inl e \<Rightarrow> Inl e
              | Inr m \<Rightarrow>
                  if upper endpoint_method = m
                  then Inr (Some endpoint_name, Some (get_or (cfg_description endpoint) endpoint_name))
                  else match_endpoints url method rest))"

definition get_endpoint_info_from_config ::
  "json \<Rightarrow> json \<Rightarrow> routes_config \<Rightarrow> exn + (string option \<times> string option)" where
  "get_endpoint_info_from_config url method config =
     (case endpoints config of
        None \<Rightarrow> Inr (None, None)
      | Some eps \<Rightarrow> match_endpoints url method eps)"

text \<open>
  Lines 122 to 142 of \<^verbatim>\<open>analyze_k6_json_with_timeline\<close>: the label of a duration point
  from its tags.
\<close>

definition resolve_endpoint ::
  "(json \<Rightarrow> string) \<Rightarrow> routes_config \<Rightarrow> (string \<times> json) list \<Rightarrow> exn + json" where
  "resolve_endpoint fmt routes_config tags =
     (let url = dict_get tags ''url'' (JStr '''');
          method = dict_get tags ''method'' (JStr ''GET'');
          name_tag = dict_get tags ''name'' (JStr '''');
          route_tag = dict_get tags ''route'' (JStr '''')
      in if truthy route_tag then Inr route_tag
         else case get_endpoint_info_from_config url method routes_config of
                Inl e \<Rightarrow> Inl e
              | Inr (endpoint_name, description) \<Rightarrow>
                  (case endpoint_name of
                     Some (c # cs) \<Rightarrow> Inr (JStr (c # cs))
                   | _ \<Rightarrow>
                      if truthy name_tag then Inr name_tag
                      else if truthy url then
                        (case url of
                           JStr u \<Rightarrow>
                             (let endpoint_parts = split_slash u
                              in Inr (JStr (py_format fmt method @ '' '' @
                                       (if endpoint_parts \<noteq> [] then last endpoint_parts
                                        else ''unknown''))))
                         | _ \<Rightarrow> Inl AttributeError)
                      else Inr (JStr ''unknown'')))"

section \<open>The analyzer state\<close>

text \<open>
  The variables of \<^verbatim>\<open>analyze_k6_json_with_timeline\<close> that the loop over the file updates.
  \<^verbatim>\<open>endpoint_stats\<close> is a \<^verbatim>\<open>defaultdict\<close>: a list of entries in insertion order, one
  per key.  The keys \<^verbatim>\<open>'p95'\<close>, \<^verbatim>\<open>'threshold'\<close> and \<^verbatim>\<open>'threshold_passed'\<close> are added to
  an entry after the loop; until then they are absent (\<open>None\<close>).  For \<open>ep_threshold\<close>,
  \<open>None\<close> is also the stored value \<^verbatim>\<open>None\<close>, which \<^verbatim>\<open>data.get('threshold')\<close> does not
  tell apart from an absent key.
\<close>

record timeline_point =
  tp_timestamp :: json
  tp_response_time :: rat
  tp_tags :: json

record ep_stats =
  ep_response_times :: "rat list"
  ep_timeline :: "(json \<times> rat) list"
  ep_errors :: nat
  ep_count :: nat
  ep_p95 :: "rat option"
  ep_threshold :: "rat option"
  ep_threshold_passed :: "bool option"

record an_state =
  response_times :: "rat list"
  timeline_data :: "timeline_point list"
  error_count :: nat
  total_requests :: nat
  endpoint_stats :: "(json \<times> ep_stats) list"
  vus_timeline :: "(json \<times> json) list"
  line_count :: nat

definition new_ep :: ep_stats where
  "new_ep = \<lparr>ep_response_times = [], ep_timeline = [], ep_errors = 0, ep_count = 0,
              ep_p95 = None, ep_threshold = None, ep_threshold_passed = None\<rparr>"

definition init_state :: an_state where
  "init_state = \<lparr>response_times = [], timeline_data = [], error_count = 0,
                  total_requests = 0, endpoint_stats = [], vus_timeline = [], line_count = 0\<rparr>"

text \<open>\<^verbatim>\<open>endpoint_stats[k]\<close> followed by an update of the entry; a missing key is created.\<close>

fun upd_endpoint :: "json \<Rightarrow> (ep_stats \<Rightarrow> ep_stats) \<Rightarrow> (json \<times> ep_stats) list \<Rightarrow> (json \<times> ep_stats) list" where
  "upd_endpoint k f [] = [(k, f new_ep)]"
| "upd_endpoint k f ((k', d) # rest) =
     (if k' = k then (k', f d) # rest else (k', d) # upd_endpoint k f rest)"

text \<open>Lines 111 to 119.\<close>

definition record_point :: "an_state \<Rightarrow> json \<Rightarrow> rat \<Rightarrow> json \<Rightarrow> an_state" where
  "record_point st timestamp v tags =
     st\<lparr>response_times := response_times st @ [v],
        total_requests := total_requests st + 1,
        timeline_data := timeline_data st @
          [\<lparr>tp_timestamp = timestamp, tp_response_time = v, tp_tags = tags\<rparr>]\<rparr>"

text \<open>Lines 144 to 149.\<close>

definition record_endpoint :: "an_state \<Rightarrow> json \<Rightarrow> json \<Rightarrow> rat \<Rightarrow> an_state" where
  "record_endpoint st k timestamp v =
     st\<lparr>endpoint_stats :=
          upd_endpoint k
            (\<lambda>d. d\<lparr>ep_response_times := ep_response_times d @ [v],
                    ep_timeline := ep_timeline d @ [(timestamp, v)],
                    ep_count := ep_count d + 1\<rparr>)
            (endpoint_stats st)\<rparr>"

text \<open>Lines 152 and 153.\<close>

definition record_error :: "an_state \<Rightarrow> json \<Rightarrow> an_state" where
  "record_error st k =
     st\<lparr>error_count := error_count st + 1,
        endpoint_stats := upd_endpoint k (\<lambda>d. d\<lparr>ep_errors := ep_errors d + 1\<rparr>) (endpoint_stats st)\<rparr>"

text \<open>
  The body of the \<^verbatim>\<open>try\<close> for one line.  Python updates the variables in place, so
  what was written before an exception stays written: the result is the state reached
  and the exception raised there, if any.
\<close>

definition handle_vus :: "(string \<times> json) list \<Rightarrow> an_state \<Rightarrow> an_state \<times> exn option" where
  "handle_vus data st =
     (case map_of (rev data) ''data'' of
        None \<Rightarrow> (st, Some KeyError)
      | Some (JObj point_data) \<Rightarrow>
          (let timestamp = dict_get point_data ''time'' (JStr '''');
               vus_count = dict_get point_data ''value'' (JNum 0)
           in (st\<lparr>vus_timeline := vus_timeline st @ [(timestamp, vus_count)]\<rparr>, None))
      | Some _ \<Rightarrow> (st, Some AttributeError))"

definition handle_duration ::
  "(json \<Rightarrow> string) \<Rightarrow> routes_config \<Rightarrow> (string \<times> json) list \<Rightarrow> an_state \<Rightarrow> an_state \<times> exn option" where
  "handle_duration fmt routes_config data st =
     (case map_of (rev data) ''data'' of
        None \<Rightarrow> (st, Some KeyError)
      | Some (JObj point_data) \<Rightarrow>
          (let val = dict_get point_data ''value'' (JNum 0);
               timestamp = dict_get point_data ''time'' (JStr '''')
           in case py_gt0 val of
                Inl e \<Rightarrow> (st, Some e)
              | Inr False \<Rightarrow> (st, None)
              | Inr True \<Rightarrow>
                  (let tags = dict_get point_data ''tags'' (JObj []);
                       st1 = record_point st timestamp (py_num val) tags
                   in case tags of
                        JObj tg \<Rightarrow>
                          (case bind_exn (resolve_endpoint fmt routes_config tg) py_key of
                             Inl e \<Rightarrow> (st1, Some e)
                           | Inr k \<Rightarrow>
                               (let st2 = record_endpoint st1 k timestamp (py_num val)
                                in case py_int (dict_get tg ''status'' (JStr ''200'')) of
                                     Inl e \<Rightarrow> (st2, Some e)
                                   | Inr n \<Rightarrow>
                                       (if 400 \<le> n then record_error st2 k else st2, None)))
                      | _ \<Rightarrow> (st1, Some AttributeError)))
      | Some _ \<Rightarrow> (st, Some AttributeError))"

text \<open>Lines 90 to 153: the body of the \<^verbatim>\<open>try\<close> for one line of text.\<close>

definition process_line ::
  "(json \<Rightarrow> string) \<Rightarrow> routes_config \<Rightarrow> loaded \<Rightarrow> an_state \<Rightarrow> an_state \<times> exn option" where
  "process_line fmt routes_config line st =
     (case line of
        Not_json \<Rightarrow> (st, Some JSONDecodeError)
      | Too_deep \<Rightarrow> (st, Some RecursionError)
      | Loaded (JObj data) \<Rightarrow>
          if dict_get data ''type'' JNull = JStr ''Point'' \<and> dict_get data ''metric'' JNull = JStr ''vus''
          then handle_vus data st
          else if dict_get data ''type'' JNull = JStr ''Point''
                  \<and> dict_get data ''metric'' JNull = JStr ''http_req_duration''
          then handle_duration fmt routes_config data st
          else (st, None)
      | Loaded _ \<Rightarrow> (st, None))"

text \<open>
  Lines 88 to 156, \<^verbatim>\<open>for line in f\<close>.  Reading a line that cannot be decoded raises
  \<^verbatim>\<open>UnicodeDecodeError\<close> in the \<^verbatim>\<open>for\<close> statement itself, outside the \<^verbatim>\<open>try\<close> of line
  90, and the handler of line 158 catches \<^verbatim>\<open>FileNotFoundError\<close> only: the exception leaves
  the function.  (Python decodes the file in blocks, so it may raise before the lines that
  precede the undecodable one in its block have been processed; the model raises when the loop
  reaches the line.  Either way the function is left by an exception and returns nothing.)
  For a line of text, an exception of the three caught classes ends the line and the loop
  goes on; any other exception leaves the function.
\<close>

fun analyze_lines ::
  "(json \<Rightarrow> string) \<Rightarrow> routes_config \<Rightarrow> line list \<Rightarrow> an_state \<Rightarrow> exn + an_state" where
  "analyze_lines fmt routes_config [] st = Inr st"
| "analyze_lines fmt routes_config (Undecodable # rest) st = Inl UnicodeDecodeError"
| "analyze_lines fmt routes_config (Text line # rest) st =
     (case process_line fmt routes_config line (st\<lparr>line_count := line_count st + 1\<rparr>) of
        (st', None) \<Rightarrow> analyze_lines fmt routes_config rest st'
      | (st', Some e) \<Rightarrow>
          if caught e then analyze_lines fmt routes_config rest st' else Inl e)"

section \<open>Statistics\<close>

text \<open>
  The functions of Python's \<^verbatim>\<open>statistics\<close> module and the builtins \<^verbatim>\<open>min\<close> and
  \<^verbatim>\<open>max\<close> that the analyzer calls, on rationals.  \<^verbatim>\<open>quantiles\<close> is the module's
  default method (\<^verbatim>\<open>'exclusive'\<close>).
\<close>

definition py_max :: "rat list \<Rightarrow> exn + rat" where
  "py_max xs = (case xs of [] \<Rightarrow> Inl ValueError | x # rest \<Rightarrow> Inr (fold max rest x))"

definition py_min :: "rat list \<Rightarrow> exn + rat" where
  "py_min xs = (case xs of [] \<Rightarrow> Inl ValueError | x # rest \<Rightarrow> Inr (fold min rest x))"

definition mean :: "rat list \<Rightarrow> exn + rat" where
  "mean xs = (if xs = [] then Inl StatisticsError else Inr (sum_list xs / of_nat (length xs)))"

definition median :: "rat list \<Rightarrow> exn + rat" where
  "median xs =
     (let data = sort xs; n = length data
      in if n = 0 then Inl StatisticsError
         else if n mod 2 = 1 then Inr (data ! (n div 2))
         else (let i = n div 2 in Inr ((data ! (i - 1) + data ! i) / 2)))"

text \<open>One cut point of \<^verbatim>\<open>quantiles\<close>: the body of \<^verbatim>\<open>for i in range(1, n)\<close>.\<close>

definition cut_point :: "rat list \<Rightarrow> nat \<Rightarrow> nat \<Rightarrow> rat" where
  "cut_point data n i =
     (let ld = length data;
          m = ld + 1;
          j0 = i * m div n;
          j = (if j0 < 1 then 1 else if j0 > ld - 1 then ld - 1 else j0);
          delta = int (i * m) - int (j * n)
      in (data ! (j - 1) * of_int (int n - delta) + data ! j * of_int delta) / of_nat n)"

definition quantiles :: "rat list \<Rightarrow> nat \<Rightarrow> exn + rat list" where
  "quantiles xs n =
     (if n < 1 then Inl StatisticsError
      else let data = sort xs
           in if length data < 2 then Inl StatisticsError
              else Inr (map (cut_point data n) [1..<n]))"

text \<open>
  \<^verbatim>\<open>statistics.quantiles(xs, n=20)[18] if len(xs) >= 20 else max(xs)\<close>, and the same
  with 100 and 98.
\<close>

definition p95_of :: "rat list \<Rightarrow> exn + rat" where
  "p95_of xs =
     (if 20 \<le> length xs then bind_exn (quantiles xs 20) (\<lambda>qs. Inr (qs ! 18)) else py_max xs)"

definition p99_of :: "rat list \<Rightarrow> exn + rat" where
  "p99_of xs =
     (if 100 \<le> length xs then bind_exn (quantiles xs 100) (\<lambda>qs. Inr (qs ! 98)) else py_max xs)"

section \<open>Thresholds\<close>

text \<open>Lines 196 to 205: the default threshold of a configured endpoint name.\<close>

definition default_threshold :: "string \<Rightarrow> rat" where
  "default_threshold endpoint_name =
     (if contains ''dashboard'' (lower endpoint_name) then 1500
      else if contains ''student'' (lower endpoint_name) \<and> contains ''list'' (lower endpoint_name)
      then 2500
      else if contains ''student'' (lower endpoint_name) \<and> contains ''details'' (lower endpoint_name)
      then 1500
      else if contains ''course'' (lower endpoint_name) then 5000
      else 2000)"

text \<open>
  Lines 187 to 205: the dict \<^verbatim>\<open>thresholds\<close>, filled in configuration order, a later
  entry of the same name replacing an earlier one.  \<^verbatim>\<open>if threshold_ms:\<close> is false for
  an absent value and for 0.
\<close>

definition threshold_for :: "endpoint_cfg \<Rightarrow> rat" where
  "threshold_for endpoint =
     (case cfg_threshold_ms endpoint of
        Some threshold_ms \<Rightarrow>
          if threshold_ms \<noteq> 0 then threshold_ms
          else default_threshold (get_or (cfg_name endpoint) '''')
      | None \<Rightarrow> default_threshold (get_or (cfg_name endpoint) ''''))"

fun fill_thresholds :: "endpoint_cfg list \<Rightarrow> (string \<rightharpoonup> rat) \<Rightarrow> (string \<rightharpoonup> rat)" where
  "fill_thresholds [] thresholds = thresholds"
| "fill_thresholds (endpoint # rest) thresholds =
     fill_thresholds rest (thresholds(get_or (cfg_name endpoint) '''' \<mapsto> threshold_for endpoint))"

definition get_thresholds :: "routes_config \<Rightarrow> (string \<rightharpoonup> rat)" where
  "get_thresholds routes_config =
     (case endpoints routes_config of
        None \<Rightarrow> Map.empty
      | Some eps \<Rightarrow> fill_thresholds eps Map.empty)"

text \<open>\<^verbatim>\<open>thresholds[endpoint]\<close> guarded by \<^verbatim>\<open>endpoint in thresholds\<close>: the keys are strings.\<close>

definition lookup_threshold :: "(string \<rightharpoonup> rat) \<Rightarrow> json \<Rightarrow> rat option" where
  "lookup_threshold thresholds endpoint = (case endpoint of JStr s \<Rightarrow> thresholds s | _ \<Rightarrow> None)"

text \<open>Lines 207 to 223, for one entry of \<^verbatim>\<open>endpoint_stats\<close>.\<close>

definition finalize_endpoint :: "(string \<rightharpoonup> rat) \<Rightarrow> json \<times> ep_stats \<Rightarrow> exn + json \<times> ep_stats" where
  "finalize_endpoint thresholds entry =
     (case entry of (endpoint, data) \<Rightarrow>
        if ep_response_times data \<noteq> [] then
          bind_exn (p95_of (ep_response_times data)) (\<lambda>p95.
            case lookup_threshold thresholds endpoint of
              Some t \<Rightarrow> Inr (endpoint, data\<lparr>ep_p95 := Some p95, ep_threshold := Some t,
                                              ep_threshold_passed := Some (p95 \<le> t)\<rparr>)
            | None \<Rightarrow> Inr (endpoint, data\<lparr>ep_p95 := Some p95, ep_threshold := None,
                                            ep_threshold_passed := Some True\<rparr>))
        else Inr (endpoint, data\<lparr>ep_p95 := Some 0, ep_threshold := None,
                                  ep_threshold_passed := Some True\<rparr>))"

fun finalize_endpoints ::
  "(string \<rightharpoonup> rat) \<Rightarrow> (json \<times> ep_stats) list \<Rightarrow> exn + (json \<times> ep_stats) list" where
  "finalize_endpoints thresholds [] = Inr []"
| "finalize_endpoints thresholds (entry # rest) =
     bind_exn (finalize_endpoint thresholds entry) (\<lambda>e.
       bind_exn (finalize_endpoints thresholds rest) (\<lambda>es. Inr (e # es)))"

section \<open>The result of the analysis\<close>

record stats =
  st_total_requests :: nat
  st_error_count :: nat
  st_error_rate :: rat
  avg_response_time :: rat
  min_response_time :: rat
  max_response_time :: rat
  p50_response_time :: rat
  p95_response_time :: rat
  p99_response_time :: rat
  st_endpoint_stats :: "(json \<times> ep_stats) list"
  st_timeline_data :: "timeline_point list"
  st_vus_timeline :: "(json \<times> json) list"

text \<open>Lines 169 to 225.  The dict \<^verbatim>\<open>stats\<close> is built first, the endpoint entries are completed after it.\<close>

definition compute_stats :: "routes_config \<Rightarrow> an_state \<Rightarrow> exn + stats" where
  "compute_stats routes_config st =
     bind_exn (mean (response_times st)) (\<lambda>avg.
     bind_exn (py_min (response_times st)) (\<lambda>mn.
     bind_exn (py_max (response_times st)) (\<lambda>mx.
     bind_exn (median (response_times st)) (\<lambda>p50.
     bind_exn (p95_of (response_times st)) (\<lambda>p95.
     bind_exn (p99_of (response_times st)) (\<lambda>p99.
     bind_exn (finalize_endpoints (get_thresholds routes_config) (endpoint_stats st)) (\<lambda>eps.
       Inr \<lparr>st_total_requests = total_requests st,
            st_error_count = error_count st,
            st_error_rate = (if 0 < total_requests st
                             then of_nat (error_count st) / of_nat (total_requests st) * 100
                             else 0),
            avg_response_time = avg,
            min_response_time = mn,
            max_response_time = mx,
            p50_response_time = p50,
            p95_response_time = p95,
            p99_response_time = p99,
            st_endpoint_stats = eps,
            st_timeline_data = timeline_data st,
            st_vus_timeline = vus_timeline st\<rparr>)))))))"

text \<open>
  The whole function.  The file is \<open>None\<close> when opening it raises
  \<^verbatim>\<open>FileNotFoundError\<close>; the function then returns \<^verbatim>\<open>None\<close>, as it does when no
  duration was collected.  \<open>Inl\<close> is an exception that leaves the function.
\<close>

definition analyze_k6_json_with_timeline ::
  "(json \<Rightarrow> string) \<Rightarrow> routes_config \<Rightarrow> line list option \<Rightarrow> exn + stats option" where
  "analyze_k6_json_with_timeline fmt routes_config json_file =
     (case json_file of
        None \<Rightarrow> Inr None
      | Some lines \<Rightarrow>
          bind_exn (analyze_lines fmt routes_config lines init_state) (\<lambda>st.
            if response_times st = [] then Inr None
            else bind_exn (compute_stats routes_config st) (\<lambda>s. Inr (Some s))))"

section \<open>Notions used to state the properties\<close>

text \<open>The sums over the per-endpoint entries that the global counters are compared with.\<close>

definition count_sum :: "(json \<times> ep_stats) list \<Rightarrow> nat" where
  "count_sum eps = sum_list (map (\<lambda>e. ep_count (snd e)) eps)"

definition error_sum :: "(json \<times> ep_stats) list \<Rightarrow> nat" where
  "error_sum eps = sum_list (map (\<lambda>e. ep_errors (snd e)) eps)"

fun is_str :: "json \<Rightarrow> bool" where
  "is_str (JStr s) = True"
| "is_str _ = False"

text \<open>
  A line whose \<^verbatim>\<open>http_req_duration\<close> point, if it is one, carries tags as the data model has
  them: a mapping from strings to strings.  Every other line (undecodable, not JSON, a record
  of another metric, a point without a \<^verbatim>\<open>data\<close> object) is not constrained.
\<close>

definition string_tags :: "line \<Rightarrow> bool" where
  "string_tags line =
     (case line of
        Text (Loaded (JObj data)) \<Rightarrow>
          if dict_get data ''type'' JNull = JStr ''Point''
             \<and> dict_get data ''metric'' JNull = JStr ''http_req_duration''
          then (case dict_get data ''data'' JNull of
                  JObj point_data \<Rightarrow>
                    (case dict_get point_data ''tags'' (JObj []) of
                       JObj tags \<Rightarrow> list_all (\<lambda>kv. is_str (snd kv)) tags
                     | _ \<Rightarrow> False)
                | _ \<Rightarrow> True)
          else True
      | _ \<Rightarrow> True)"

subsection \<open>Concrete inputs\<close>

text \<open>
  The decoded form of a line
  \<^verbatim>\<open>{"type":"Point","metric":"http_req_duration","data":{"time":..,"value":..,"tags":{..}}}\<close>,
  and the line.
\<close>

definition duration_record :: "string \<Rightarrow> json \<Rightarrow> json \<Rightarrow> loaded" where
  "duration_record time val tags =
     Loaded (JObj [(''type'', JStr ''Point''), (''metric'', JStr ''http_req_duration''),
                   (''data'', JObj [(''time'', JStr time), (''value'', val), (''tags'', tags)])])"

definition duration_point :: "string \<Rightarrow> json \<Rightarrow> json \<Rightarrow> line" where
  "duration_point time val tags = Text (duration_record time val tags)"

text \<open>The configuration when no \<^verbatim>\<open>endpoints.json\<close> is found: the empty dict.\<close>

definition no_config :: routes_config where
  "no_config = \<lparr>endpoints = None\<rparr>"

text \<open>
  In the concrete inputs below every \<^verbatim>\<open>method\<close> tag is a string or absent, so the text of
  a non-string value is never asked for; this function stands in for it.
\<close>

definition no_str :: "json \<Rightarrow> string" where
  "no_str x = []"

text \<open>A duration point whose \<^verbatim>\<open>route\<close> tag is the JSON array \<^verbatim>\<open>["a"]\<close>.\<close>

definition list_route_point :: line where
  "list_route_point =
     duration_point ''2024-05-01T10:00:00Z'' (JNum 5) (JObj [(''route'', JArr [JStr ''a''])])"

text \<open>
  Two endpoints, three requests, one of them an error, and between them a line that is not
  JSON and a record of another metric.
\<close>

definition two_endpoints :: "line list" where
  "two_endpoints =
     [duration_point ''2024-05-01T10:00:00Z'' (JNum 100)
        (JObj [(''route'', JStr ''login''), (''status'', JStr ''200'')]),
      Text Not_json,
      duration_point ''2024-05-01T10:00:01Z'' (JNum 250)
        (JObj [(''route'', JStr ''search''), (''status'', JStr ''503'')]),
      Text (Loaded (JObj [(''type'', JStr ''Point''), (''metric'', JStr ''http_reqs''),
                          (''data'', JObj [(''time'', JStr ''2024-05-01T10:00:01Z''),
                                           (''value'', JNum 1)])])),
      duration_point ''2024-05-01T10:00:02Z'' (JNum 90)
        (JObj [(''route'', JStr ''login''), (''status'', JStr ''200'')])]"

definition two_endpoints_stats :: stats where
  "two_endpoints_stats =
     \<lparr>st_total_requests = 3, st_error_count = 1, st_error_rate = 100 / 3,
      avg_response_time = 440 / 3, min_response_time = 90, max_response_time = 250,
      p50_response_time = 100, p95_response_time = 250, p99_response_time = 250,
      st_endpoint_stats =
        [(JStr ''login'',
          \<lparr>ep_response_times = [100, 90],
           ep_timeline = [(JStr ''2024-05-01T10:00:00Z'', 100), (JStr ''2024-05-01T10:00:02Z'', 90)],
           ep_errors = 0, ep_count = 2, ep_p95 = Some 100,
           ep_threshold = None, ep_threshold_passed = Some True\<rparr>),
         (JStr ''search'',
          \<lparr>ep_response_times = [250],
           ep_timeline = [(JStr ''2024-05-01T10:00:01Z'', 250)],
           ep_errors = 1, ep_count = 1, ep_p95 = Some 250,
           ep_threshold = None, ep_threshold_passed = Some True\<rparr>)],
      st_timeline_data =
        [\<lparr>tp_timestamp = JStr ''2024-05-01T10:00:00Z'', tp_response_time = 100,
          tp_tags = JObj [(''route'', JStr ''login''), (''status'', JStr ''200'')]\<rparr>,
         \<lparr>tp_timestamp = JStr ''2024-05-01T10:00:01Z'', tp_response_time = 250,
          tp_tags = JObj [(''route'', JStr ''search''), (''status'', JStr ''503'')]\<rparr>,
         \<lparr>tp_timestamp = JStr ''2024-05-01T10:00:02Z'', tp_response_time = 90,
          tp_tags = JObj [(''route'', JStr ''login''), (''status'', JStr ''200'')]\<rparr>],
      st_vus_timeline = []\<rparr>"

text \<open>
  What the specification calls the p95 (\<open>n = 20\<close>) and the p99 (\<open>n = 100\<close>) of a sample: the
  maximum when the sample has fewer than \<open>n\<close> observations, else the cut point of index
  \<open>n - 2\<close> (18, resp. 98) among the \<open>n - 1\<close> cut points of the \<open>n\<close>-quantiles.
\<close>

definition is_percentile :: "nat \<Rightarrow> rat list \<Rightarrow> rat \<Rightarrow> bool" where
  "is_percentile n sample p =
     (if length sample < n then p = Max (set sample)
      else \<exists>qs. quantiles sample n = Inr qs \<and> length qs = n - 1 \<and> p = qs ! (n - 2))"

text \<open>
  An invariant of the loop over the file: the global sample is the list of the response times
  of the timeline, and no endpoint entry has an empty sample.
\<close>

definition samples_ok :: "an_state \<Rightarrow> bool" where
  "samples_ok st =
     (response_times st = map tp_response_time (timeline_data st)
      \<and> list_all (\<lambda>e. ep_response_times (snd e) \<noteq> []) (endpoint_stats st))"

text \<open>Twenty requests of 1 to 20 ms on one endpoint.\<close>

definition twenty_points :: "line list" where
  "twenty_points =
     map (\<lambda>n. duration_point ''2024-05-01T10:00:00Z'' (JNum (of_nat n)) (JObj [(''route'', JStr ''X'')]))
       [1..<21]"

definition twenty_points_stats :: stats where
  "twenty_points_stats =
     \<lparr>st_total_requests = 20, st_error_count = 0, st_error_rate = 0,
      avg_response_time = 21 / 2, min_response_time = 1, max_response_time = 20,
      p50_response_time = 21 / 2, p95_response_time = 399 / 20, p99_response_time = 20,
      st_endpoint_stats =
        [(JStr ''X'',
          \<lparr>ep_response_times = map of_nat [1..<21],
           ep_timeline = map (\<lambda>n. (JStr ''2024-05-01T10:00:00Z'', of_nat n)) [1..<21],
           ep_errors = 0, ep_count = 20, ep_p95 = Some (399 / 20),
           ep_threshold = None, ep_threshold_passed = Some True\<rparr>)],
      st_timeline_data =
        map (\<lambda>n. \<lparr>tp_timestamp = JStr ''2024-05-01T10:00:00Z'', tp_response_time = of_nat n,
                   tp_tags = JObj [(''route'', JStr ''X'')]\<rparr>) [1..<21],
      st_vus_timeline = []\<rparr>"

section \<open>The endpoint table of the report\<close>

text \<open>
  Lines 425 to 448 of \<^verbatim>\<open>generate_html_report_with_charts\<close>: the values computed for one row
  of the endpoint table, before they are formatted into HTML.  The three status texts start
  with an emoji, written here as its UTF-8 bytes.
\<close>

record endpoint_row =
  row_endpoint :: json
  row_count :: nat
  row_success_rate :: rat
  row_avg_time :: rat
  row_min_time :: rat
  row_max_time :: rat
  row_p95_time :: rat
  row_threshold :: "rat option"
  row_threshold_passed :: bool
  row_status_class :: string
  row_status_text :: string
  row_threshold_display :: string
  row_threshold_class :: string

definition excellent_text :: string where
  "excellent_text = [CHR 0xE2, CHR 0x9C, CHR 0x85] @ '' Excellent''"

definition good_text :: string where
  "good_text = [CHR 0xE2, CHR 0x9A, CHR 0xA0, CHR 0xEF, CHR 0xB8, CHR 0x8F] @ '' Good''"

definition needs_attention_text :: string where
  "needs_attention_text = [CHR 0xE2, CHR 0x9D, CHR 0x8C] @ '' Needs Attention''"

definition make_row :: "(json \<Rightarrow> string) \<Rightarrow> json \<times> ep_stats \<Rightarrow> exn + endpoint_row" where
  "make_row fmt entry =
     (case entry of (endpoint, data) \<Rightarrow>
        (let success_rate = ((of_nat (ep_count data) - of_nat (ep_errors data)) / of_nat (ep_count data)) * 100
         in bind_exn (mean (ep_response_times data)) (\<lambda>avg_time.
            bind_exn (py_min (ep_response_times data)) (\<lambda>min_time.
            bind_exn (py_max (ep_response_times data)) (\<lambda>max_time.
              (let p95_time = get_or (ep_p95 data) 0;
                   threshold = ep_threshold data;
                   threshold_passed = get_or (ep_threshold_passed data) True;
                   status = (if 95 \<le> success_rate \<and> threshold_passed then (''success'', excellent_text)
                             else if 90 \<le> success_rate \<and> threshold_passed then (''warning'', good_text)
                             else (''danger'', needs_attention_text));
                   threshold_display =
                     (case threshold of
                        Some t \<Rightarrow> if t \<noteq> 0 then py_format fmt (JNum t) @ ''ms'' else ''N/A''
                      | None \<Rightarrow> ''N/A'');
                   threshold_class = (if threshold_passed then ''success'' else ''danger'')
               in Inr \<lparr>row_endpoint = endpoint, row_count = ep_count data,
                        row_success_rate = success_rate, row_avg_time = avg_time,
                        row_min_time = min_time, row_max_time = max_time, row_p95_time = p95_time,
                        row_threshold = threshold, row_threshold_passed = threshold_passed,
                        row_status_class = fst status, row_status_text = snd status,
                        row_threshold_display = threshold_display,
                        row_threshold_class = threshold_class\<rparr>))))))"

text \<open>\<^verbatim>\<open>for endpoint, data in stats['endpoint_stats'].items(): if data['count'] > 0: ...\<close>\<close>

fun endpoint_rows :: "(json \<Rightarrow> string) \<Rightarrow> (json \<times> ep_stats) list \<Rightarrow> exn + endpoint_row list" where
  "endpoint_rows fmt [] = Inr []"
| "endpoint_rows fmt (entry # rest) =
     (if 0 < ep_count (snd entry)
      then bind_exn (make_row fmt entry) (\<lambda>row.
             bind_exn (endpoint_rows fmt rest) (\<lambda>rows. Inr (row # rows)))
      else endpoint_rows fmt rest)"

text \<open>
  Scenario A of the specification: durations 100, 120, 110, 5000 (answered with status 500)
  and 130 ms, all on the endpoint X, no configuration.
\<close>

definition scenario_A :: "line list" where
  "scenario_A =
     [duration_point ''2024-05-01T10:00:00Z'' (JNum 100) (JObj [(''route'', JStr ''X''), (''status'', JStr ''200'')]),
      duration_point ''2024-05-01T10:00:01Z'' (JNum 120) (JObj [(''route'', JStr ''X''), (''status'', JStr ''200'')]),
      duration_point ''2024-05-01T10:00:02Z'' (JNum 110) (JObj [(''route'', JStr ''X''), (''status'', JStr ''200'')]),
      duration_point ''2024-05-01T10:00:03Z'' (JNum 5000) (JObj [(''route'', JStr ''X''), (''status'', JStr ''500'')]),
      duration_point ''2024-05-01T10:00:04Z'' (JNum 130) (JObj [(''route'', JStr ''X''), (''status'', JStr ''200'')])]"

text \<open>The entry of endpoint X that the analysis of scenario A ends with.\<close>

definition scenario_A_entry :: ep_stats where
  "scenario_A_entry =
     \<lparr>ep_response_times = [100, 120, 110, 5000, 130],
      ep_timeline = [(JStr ''2024-05-01T10:00:00Z'', 100), (JStr ''2024-05-01T10:00:01Z'', 120),
                     (JStr ''2024-05-01T10:00:02Z'', 110), (JStr ''2024-05-01T10:00:03Z'', 5000),
                     (JStr ''2024-05-01T10:00:04Z'', 130)],
      ep_errors = 1, ep_count = 5, ep_p95 = Some 5000,
      ep_threshold = None, ep_threshold_passed = Some True\<rparr>"

text \<open>
  The success rate of an endpoint entry as the specification defines it:
  (count - errors) / count * 100.
\<close>

definition success_rate_of :: "ep_stats \<Rightarrow> rat" where
  "success_rate_of data = (of_nat (ep_count data) - of_nat (ep_errors data)) / of_nat (ep_count data) * 100"

text \<open>
  The configured endpoint that gives a label its threshold: the last one of the configuration
  whose name is the label (a missing name is the empty string).
\<close>

definition config_name :: "endpoint_cfg \<Rightarrow> string" where
  "config_name c = get_or (cfg_name c) ''''"

definition configured :: "routes_config \<Rightarrow> json \<Rightarrow> endpoint_cfg option" where
  "configured routes_config label =
     (case label of
        JStr name \<Rightarrow> find (\<lambda>c. config_name c = name) (rev (get_or (endpoints routes_config) []))
      | _ \<Rightarrow> None)"

text \<open>An invariant of the loop over the file: every entry counts the observations of its sample.\<close>

definition counts_ok :: "an_state \<Rightarrow> bool" where
  "counts_ok st = list_all (\<lambda>e. ep_count (snd e) = length (ep_response_times (snd e))) (endpoint_stats st)"

text \<open>
  A configuration with one endpoint, "Dashboard", and a stream with one request of 60 seconds
  that carries the route tag "reports".
\<close>

definition dashboard_config :: routes_config where
  "dashboard_config =
     \<lparr>endpoints = Some [\<lparr>cfg_name = Some ''Dashboard'', cfg_method = Some ''GET'',
                          cfg_url = Some ''/api/dashboard'', cfg_description = None,
                          cfg_threshold_ms = None\<rparr>]\<rparr>"

definition slow_reports :: "line list" where
  "slow_reports =
     [duration_point ''2024-05-01T10:00:00Z'' (JNum 60000)
        (JObj [(''route'', JStr ''reports''), (''status'', JStr ''200'')])]"

definition slow_reports_entry :: "json \<times> ep_stats" where
  "slow_reports_entry =
     (JStr ''reports'',
      \<lparr>ep_response_times = [60000], ep_timeline = [(JStr ''2024-05-01T10:00:00Z'', 60000)],
       ep_errors = 0, ep_count = 1, ep_p95 = Some 60000,
       ep_threshold = None, ep_threshold_passed = Some True\<rparr>)"

definition slow_reports_stats :: stats where
  "slow_reports_stats =
     \<lparr>st_total_requests = 1, st_error_count = 0, st_error_rate = 0,
      avg_response_time = 60000, min_response_time = 60000, max_response_time = 60000,
      p50_response_time = 60000, p95_response_time = 60000, p99_response_time = 60000,
      st_endpoint_stats = [slow_reports_entry],
      st_timeline_data =
        [\<lparr>tp_timestamp = JStr ''2024-05-01T10:00:00Z'', tp_response_time = 60000,
          tp_tags = JObj [(''route'', JStr ''reports''), (''status'', JStr ''200'')]\<rparr>],
      st_vus_timeline = []\<rparr>"

text \<open>
  Scenario B of the specification: an endpoint named "Student List API" configured without a
  threshold, and a second endpoint with the threshold 800 ms.  The requests carry no route
  tag and are labelled through their URL and method.
\<close>

definition student_list_cfg :: endpoint_cfg where
  "student_list_cfg =
     \<lparr>cfg_name = Some ''Student List API'', cfg_method = Some ''GET'',
      cfg_url = Some ''/api/students'', cfg_description = None, cfg_threshold_ms = None\<rparr>"

definition orders_cfg :: endpoint_cfg where
  "orders_cfg =
     \<lparr>cfg_name = Some ''Orders'', cfg_method = Some ''POST'',
      cfg_url = Some ''/api/orders'', cfg_description = None, cfg_threshold_ms = Some 800\<rparr>"

definition student_config :: routes_config where
  "student_config = \<lparr>endpoints = Some [student_list_cfg, orders_cfg]\<rparr>"

definition student_requests :: "line list" where
  "student_requests =
     [duration_point ''2024-05-01T10:00:00Z'' (JNum 3000)
        (JObj [(''url'', JStr ''https://school.example/api/students''), (''method'', JStr ''GET''),
               (''status'', JStr ''200'')]),
      duration_point ''2024-05-01T10:00:01Z'' (JNum 500)
        (JObj [(''url'', JStr ''https://school.example/api/orders''), (''method'', JStr ''post''),
               (''status'', JStr ''201'')])]"

definition student_list_entry :: "json \<times> ep_stats" where
  "student_list_entry =
     (JStr ''Student List API'',
      \<lparr>ep_response_times = [3000], ep_timeline = [(JStr ''2024-05-01T10:00:00Z'', 3000)],
       ep_errors = 0, ep_count = 1, ep_p95 = Some 3000,
       ep_threshold = Some 2500, ep_threshold_passed = Some False\<rparr>)"

definition orders_entry :: "json \<times> ep_stats" where
  "orders_entry =
     (JStr ''Orders'',
      \<lparr>ep_response_times = [500], ep_timeline = [(JStr ''2024-05-01T10:00:01Z'', 500)],
       ep_errors = 0, ep_count = 1, ep_p95 = Some 500,
       ep_threshold = Some 800, ep_threshold_passed = Some True\<rparr>)"

definition student_stats :: stats where
  "student_stats =
     \<lparr>st_total_requests = 2, st_error_count = 0, st_error_rate = 0,
      avg_response_time = 1750, min_response_time = 500, max_response_time = 3000,
      p50_response_time = 1750, p95_response_time = 3000, p99_response_time = 3000,
      st_endpoint_stats = [student_list_entry, orders_entry],
      st_timeline_data =
        [\<lparr>tp_timestamp = JStr ''2024-05-01T10:00:00Z'', tp_response_time = 3000,
          tp_tags = JObj [(''url'', JStr ''https://school.example/api/students''),
                          (''method'', JStr ''GET''), (''status'', JStr ''200'')]\<rparr>,
         \<lparr>tp_timestamp = JStr ''2024-05-01T10:00:01Z'', tp_response_time = 500,
          tp_tags = JObj [(''url'', JStr ''https://school.example/api/orders''),
                          (''method'', JStr ''post''), (''status'', JStr ''201'')]\<rparr>],
      st_vus_timeline = []\<rparr>"

text \<open>
  The same request labelled "Student List API" by its route tag, analysed without a
  configuration; and a configured endpoint whose \<^verbatim>\<open>threshold_ms\<close> is 0.
\<close>

definition student_route_request :: line where
  "student_route_request =
     duration_point ''2024-05-01T10:00:00Z'' (JNum 3000)
       (JObj [(''route'', JStr ''Student List API''), (''status'', JStr ''200'')])"

definition student_route_entry :: "json \<times> ep_stats" where
  "student_route_entry =
     (JStr ''Student List API'',
      \<lparr>ep_response_times = [3000], ep_timeline = [(JStr ''2024-05-01T10:00:00Z'', 3000)],
       ep_errors = 0, ep_count = 1, ep_p95 = Some 3000,
       ep_threshold = None, ep_threshold_passed = Some True\<rparr>)"

definition zero_threshold_cfg :: endpoint_cfg where
  "zero_threshold_cfg =
     \<lparr>cfg_name = Some ''Orders'', cfg_method = Some ''POST'',
      cfg_url = Some ''/api/orders'', cfg_description = None, cfg_threshold_ms = Some 0\<rparr>"

text \<open>
  The resolution order of the specification, on tags that are strings.  A tag that is absent
  is the empty string, the method \<^verbatim>\<open>GET\<close>.
\<close>

definition tag_str :: "(string \<times> json) list \<Rightarrow> string \<Rightarrow> string \<Rightarrow> string" where
  "tag_str tags k d = (case dict_get tags k (JStr d) of JStr s \<Rightarrow> s | _ \<Rightarrow> d)"

text \<open>
  The first endpoint, in configuration order, whose url with the leading slashes stripped is
  a substring of the url tag and whose method is the method tag up to case.
\<close>

definition matching_endpoint :: "routes_config \<Rightarrow> string \<Rightarrow> string \<Rightarrow> endpoint_cfg option" where
  "matching_endpoint routes_config url method =
     find (\<lambda>c. contains (lstrip_slash (get_or (cfg_url c) '''')) url
               \<and> upper (get_or (cfg_method c) ''GET'') = upper method)
          (get_or (endpoints routes_config) [])"

text \<open>The last of the segments that the slashes of a string separate.\<close>

definition last_segment :: "string \<Rightarrow> string" where
  "last_segment url = rev (takeWhile (\<lambda>c. c \<noteq> CHR ''/'') (rev url))"

text \<open>Rules 3 to 5: the name tag, the method and the last segment of the url, "unknown".\<close>

definition fallback_label :: "string \<Rightarrow> string \<Rightarrow> string \<Rightarrow> string" where
  "fallback_label url method name =
     (if name \<noteq> [] then name
      else if url \<noteq> [] then method @ '' '' @ last_segment url
      else ''unknown'')"

definition label_of :: "routes_config \<Rightarrow> string \<Rightarrow> string \<Rightarrow> string \<Rightarrow> string \<Rightarrow> string" where
  "label_of routes_config route url method name =
     (if route \<noteq> [] then route
      else case matching_endpoint routes_config url method of
             Some c \<Rightarrow> if config_name c \<noteq> [] then config_name c else fallback_label url method name
           | None \<Rightarrow> fallback_label url method name)"

text \<open>
  A configuration whose first endpoint has no name, and the tags of a request to it that
  carries a name tag.
\<close>

definition unnamed_cfg :: endpoint_cfg where
  "unnamed_cfg =
     \<lparr>cfg_name = None, cfg_method = Some ''GET'', cfg_url = Some ''/api/users'',
      cfg_description = None, cfg_threshold_ms = None\<rparr>"

definition users_cfg :: endpoint_cfg where
  "users_cfg =
     \<lparr>cfg_name = Some ''User API'', cfg_method = Some ''GET'', cfg_url = Some ''/api/users'',
      cfg_description = None, cfg_threshold_ms = None\<rparr>"

definition unnamed_config :: routes_config where
  "unnamed_config = \<lparr>endpoints = Some [unnamed_cfg, users_cfg]\<rparr>"

definition users_tags :: "(string \<times> json) list" where
  "users_tags =
     [(''url'', JStr ''https://school.example/api/users''), (''method'', JStr ''GET''),
      (''name'', JStr ''users''), (''status'', JStr ''200'')]"

text \<open>The tags of the first request of \<open>student_requests\<close>.\<close>

definition students_tags :: "(string \<times> json) list" where
  "students_tags =
     [(''url'', JStr ''https://school.example/api/students''), (''method'', JStr ''GET''),
      (''status'', JStr ''200'')]"

text \<open>
  The lines of text that the analyzer drops: a line for which \<^verbatim>\<open>json.loads\<close> raises
  \<^verbatim>\<open>JSONDecodeError\<close>, a value that is not an object, an object that is not a \<^verbatim>\<open>Point\<close> of
  one of the two metrics, and a duration point whose \<^verbatim>\<open>data\<close> is an object with a value that
  is absent, is \<^verbatim>\<open>null\<close>, a string, an array or an object, is \<^verbatim>\<open>false\<close>, or is a number
  that is not strictly positive.  The value \<^verbatim>\<open>true\<close> is not among them: \<^verbatim>\<open>True > 0\<close> holds
  and the point is counted.  Neither is a line nested too deep for \<^verbatim>\<open>json.loads\<close>.
\<close>

definition dropped :: "loaded \<Rightarrow> bool" where
  "dropped line =
     (case line of
        Not_json \<Rightarrow> True
      | Too_deep \<Rightarrow> False
      | Loaded (JObj data) \<Rightarrow>
          if dict_get data ''type'' JNull \<noteq> JStr ''Point'' then True
          else if dict_get data ''metric'' JNull = JStr ''vus'' then False
          else if dict_get data ''metric'' JNull = JStr ''http_req_duration'' then
            (case map_of (rev data) ''data'' of
               Some (JObj point_data) \<Rightarrow>
                 (case map_of (rev point_data) ''value'' of
                    None \<Rightarrow> True
                  | Some (JNum r) \<Rightarrow> r \<le> 0
                  | Some (JBool b) \<Rightarrow> \<not> b
                  | Some _ \<Rightarrow> True)
             | _ \<Rightarrow> False)
          else True
      | Loaded _ \<Rightarrow> True)"

text \<open>
  A duration record without \<^verbatim>\<open>data\<close>, a well-formed request, a request whose status tag
  is not a number, and a request whose value is \<^verbatim>\<open>true\<close>.
\<close>

definition missing_data_point :: loaded where
  "missing_data_point = Loaded (JObj [(''type'', JStr ''Point''), (''metric'', JStr ''http_req_duration'')])"

definition good_point :: loaded where
  "good_point =
     duration_record ''2024-05-01T10:00:00Z'' (JNum 100)
       (JObj [(''route'', JStr ''login''), (''status'', JStr ''200'')])"

definition bad_status_point :: loaded where
  "bad_status_point =
     duration_record ''2024-05-01T10:00:00Z'' (JNum 100)
       (JObj [(''route'', JStr ''login''), (''status'', JStr ''abc'')])"

definition true_point :: loaded where
  "true_point =
     duration_record ''2024-05-01T10:00:00Z'' (JBool True)
       (JObj [(''route'', JStr ''login''), (''status'', JStr ''200'')])"

text \<open>A duration record with the value 0.\<close>

definition zero_point :: loaded where
  "zero_point =
     duration_record ''2024-05-01T10:00:00Z'' (JNum 0)
       (JObj [(''route'', JStr ''login''), (''status'', JStr ''200'')])"

section \<open>Verified properties\<close>

subsection \<open>The counters of the analyzer\<close>

lemma upd_endpoint_sum:
  assumes "\<And>d. g (f d) = g d + c" and "g new_ep = 0"
  shows "sum_list (map (\<lambda>e. g (snd e)) (upd_endpoint k f eps)) =
         sum_list (map (\<lambda>e. g (snd e)) eps) + (c::nat)"
  using assms by (induction eps) auto

lemma count_sum_record_endpoint:
  "count_sum (endpoint_stats (record_endpoint st k t v)) = count_sum (endpoint_stats st) + 1"
  unfolding count_sum_def record_endpoint_def
  by (simp add: upd_endpoint_sum [where c = 1] new_ep_def)

lemma error_sum_record_endpoint:
  "error_sum (endpoint_stats (record_endpoint st k t v)) = error_sum (endpoint_stats st)"
  unfolding error_sum_def record_endpoint_def
  using upd_endpoint_sum [where c = 0 and g = ep_errors]
  by (simp add: new_ep_def)

lemma count_sum_record_error:
  "count_sum (endpoint_stats (record_error st k)) = count_sum (endpoint_stats st)"
  unfolding count_sum_def record_error_def
  using upd_endpoint_sum [where c = 0 and g = ep_count]
  by (simp add: new_ep_def)

lemma error_sum_record_error:
  "error_sum (endpoint_stats (record_error st k)) = error_sum (endpoint_stats st) + 1"
  unfolding error_sum_def record_error_def
  by (simp add: upd_endpoint_sum [where c = 1] new_ep_def)

lemma record_simps:
  "total_requests (record_point st t v tg) = total_requests st + 1"
  "error_count (record_point st t v tg) = error_count st"
  "endpoint_stats (record_point st t v tg) = endpoint_stats st"
  "total_requests (record_endpoint st k t v) = total_requests st"
  "error_count (record_endpoint st k t v) = error_count st"
  "total_requests (record_error st k) = total_requests st"
  "error_count (record_error st k) = error_count st + 1"
  by (simp_all add: record_point_def record_endpoint_def record_error_def)

lemmas sum_simps = record_simps count_sum_record_endpoint error_sum_record_endpoint
  count_sum_record_error error_sum_record_error

lemma handle_duration_errors:
  assumes "handle_duration fmt cfg data st = (st', r)"
    and "error_count st = error_sum (endpoint_stats st)"
  shows "error_count st' = error_sum (endpoint_stats st')"
  using assms unfolding handle_duration_def
  by (auto simp: Let_def sum_simps split: option.splits json.splits sum.splits bool.splits if_splits)

lemma handle_duration_le:
  assumes "handle_duration fmt cfg data st = (st', r)"
    and "count_sum (endpoint_stats st) \<le> total_requests st"
  shows "count_sum (endpoint_stats st') \<le> total_requests st'"
  using assms unfolding handle_duration_def
  by (auto simp: Let_def sum_simps split: option.splits json.splits sum.splits bool.splits if_splits)

lemma dict_get_str:
  assumes "list_all (\<lambda>kv. is_str (snd kv)) tg"
  shows "is_str (dict_get tg k (JStr d))"
proof -
  have "\<And>v. map_of (rev tg) k = Some v \<Longrightarrow> is_str v"
    using assms by (fastforce dest!: map_of_SomeD simp: list_all_iff)
  then show ?thesis by (auto simp: dict_get_def split: option.splits)
qed

lemma is_strE: "is_str x \<Longrightarrow> \<exists>s. x = JStr s"
  by (cases x) auto

lemma match_endpoints_str:
  "\<exists>a b. match_endpoints (JStr u) (JStr m) eps = Inr (a, b)"
  by (induction eps) (auto simp: Let_def split: bool.splits)

lemma get_endpoint_info_str:
  "\<exists>a b. get_endpoint_info_from_config (JStr u) (JStr m) cfg = Inr (a, b)"
  by (cases "endpoints cfg") (simp_all add: get_endpoint_info_from_config_def match_endpoints_str)

lemma resolve_endpoint_str:
  assumes "list_all (\<lambda>kv. is_str (snd kv)) tg"
  shows "\<exists>s. resolve_endpoint fmt cfg tg = Inr (JStr s)"
proof -
  obtain u where u: "dict_get tg ''url'' (JStr []) = JStr u"
    using dict_get_str [OF assms] is_strE by blast
  obtain m where m: "dict_get tg ''method'' (JStr ''GET'') = JStr m"
    using dict_get_str [OF assms] is_strE by blast
  obtain n where n: "dict_get tg ''name'' (JStr []) = JStr n"
    using dict_get_str [OF assms] is_strE by blast
  obtain r where r: "dict_get tg ''route'' (JStr []) = JStr r"
    using dict_get_str [OF assms] is_strE by blast
  obtain a b where q: "get_endpoint_info_from_config (JStr u) (JStr m) cfg = Inr (a, b)"
    using get_endpoint_info_str by blast
  show ?thesis
    by (simp add: resolve_endpoint_def u m n r q Let_def split: option.splits list.splits)
qed

lemma handle_duration_eq:
  assumes "handle_duration fmt cfg data st = (st', r)"
    and "string_tags (Text (Loaded (JObj data)))"
    and "count_sum (endpoint_stats st) = total_requests st"
    and "dict_get data ''type'' JNull = JStr ''Point''"
    and "dict_get data ''metric'' JNull = JStr ''http_req_duration''"
  shows "count_sum (endpoint_stats st') = total_requests st' \<or> r = Some AttributeError"
proof (cases "map_of (rev data) ''data''")
  case None
  with assms show ?thesis by (simp add: handle_duration_def)
next
  case (Some pdv)
  show ?thesis
  proof (cases pdv)
    case (JObj pd)
    show ?thesis
    proof (cases "dict_get pd ''tags'' (JObj [])")
      case tg: (JObj tg)
      have "list_all (\<lambda>kv. is_str (snd kv)) tg"
        using assms(2,4,5) Some JObj tg by (simp add: string_tags_def dict_get_def)
      then obtain s where "resolve_endpoint fmt cfg tg = Inr (JStr s)"
        using resolve_endpoint_str by blast
      then have k: "bind_exn (resolve_endpoint fmt cfg tg) py_key = Inr (JStr s)"
        by (simp add: bind_exn_def)
      show ?thesis
        using assms(1,3) Some JObj tg k unfolding handle_duration_def
        by (auto simp: Let_def sum_simps split: sum.splits bool.splits if_splits)
    qed (use assms Some JObj in \<open>auto simp: handle_duration_def string_tags_def dict_get_def Let_def sum_simps
          split: sum.splits bool.splits if_splits\<close>)
  qed (use assms Some in \<open>auto simp: handle_duration_def\<close>)
qed

lemma handle_vus_same:
  "handle_vus data st = (st', r) \<Longrightarrow>
     endpoint_stats st' = endpoint_stats st \<and> total_requests st' = total_requests st
     \<and> error_count st' = error_count st"
  by (auto simp: handle_vus_def Let_def split: option.splits json.splits)

lemma process_line_errors:
  assumes "process_line fmt cfg line st = (st', r)"
    and "error_count st = error_sum (endpoint_stats st)"
  shows "error_count st' = error_sum (endpoint_stats st')"
  using assms handle_duration_errors handle_vus_same
  by (fastforce simp: process_line_def split: loaded.splits json.splits if_splits)

lemma process_line_le:
  assumes "process_line fmt cfg line st = (st', r)"
    and "count_sum (endpoint_stats st) \<le> total_requests st"
  shows "count_sum (endpoint_stats st') \<le> total_requests st'"
  using assms handle_duration_le handle_vus_same
  by (fastforce simp: process_line_def split: loaded.splits json.splits if_splits)

lemma process_line_eq:
  assumes "process_line fmt cfg line st = (st', r)"
    and "string_tags (Text line)"
    and "count_sum (endpoint_stats st) = total_requests st"
  shows "count_sum (endpoint_stats st') = total_requests st' \<or> r = Some AttributeError"
  using assms handle_duration_eq handle_vus_same
  by (fastforce simp: process_line_def split: loaded.splits json.splits if_splits)

lemma analyze_lines_errors:
  assumes "analyze_lines fmt cfg lines st = Inr st'"
    and "error_count st = error_sum (endpoint_stats st)"
  shows "error_count st' = error_sum (endpoint_stats st')"
  using assms
proof (induction lines arbitrary: st)
  case Nil
  then show ?case by simp
next
  case (Cons line rest)
  obtain l where l: "line = Text l"
    using Cons.prems(1) by (cases line) simp_all
  obtain st1 r where p: "process_line fmt cfg l (st\<lparr>line_count := line_count st + 1\<rparr>) = (st1, r)"
    by (cases "process_line fmt cfg l (st\<lparr>line_count := line_count st + 1\<rparr>)")
  have "error_count st1 = error_sum (endpoint_stats st1)"
    using process_line_errors [OF p] Cons.prems(2) by simp
  moreover have "analyze_lines fmt cfg rest st1 = Inr st'"
    using Cons.prems(1) p l by (auto split: option.splits if_splits)
  ultimately show ?case using Cons.IH by blast
qed

lemma analyze_lines_le:
  assumes "analyze_lines fmt cfg lines st = Inr st'"
    and "count_sum (endpoint_stats st) \<le> total_requests st"
  shows "count_sum (endpoint_stats st') \<le> total_requests st'"
  using assms
proof (induction lines arbitrary: st)
  case Nil
  then show ?case by simp
next
  case (Cons line rest)
  obtain l where l: "line = Text l"
    using Cons.prems(1) by (cases line) simp_all
  obtain st1 r where p: "process_line fmt cfg l (st\<lparr>line_count := line_count st + 1\<rparr>) = (st1, r)"
    by (cases "process_line fmt cfg l (st\<lparr>line_count := line_count st + 1\<rparr>)")
  have "count_sum (endpoint_stats st1) \<le> total_requests st1"
    using process_line_le [OF p] Cons.prems(2) by simp
  moreover have "analyze_lines fmt cfg rest st1 = Inr st'"
    using Cons.prems(1) p l by (auto split: option.splits if_splits)
  ultimately show ?case using Cons.IH by blast
qed

lemma analyze_lines_eq:
  assumes "analyze_lines fmt cfg lines st = Inr st'"
    and "list_all string_tags lines"
    and "count_sum (endpoint_stats st) = total_requests st"
  shows "count_sum (endpoint_stats st') = total_requests st'"
  using assms
proof (induction lines arbitrary: st)
  case Nil
  then show ?case by simp
next
  case (Cons line rest)
  obtain l where l: "line = Text l"
    using Cons.prems(1) by (cases line) simp_all
  obtain st1 r where p: "process_line fmt cfg l (st\<lparr>line_count := line_count st + 1\<rparr>) = (st1, r)"
    by (cases "process_line fmt cfg l (st\<lparr>line_count := line_count st + 1\<rparr>)")
  have r: "r \<noteq> Some AttributeError" and rest: "analyze_lines fmt cfg rest st1 = Inr st'"
    using Cons.prems(1) p l by (auto simp: caught_def split: option.splits if_splits)
  have "count_sum (endpoint_stats st1) = total_requests st1"
    using process_line_eq [OF p] Cons.prems(2,3) r l by simp
  then show ?case using Cons.IH [OF rest] Cons.prems(2) by simp
qed

lemma finalize_endpoint_same:
  "finalize_endpoint th e = Inr e' \<Longrightarrow>
     fst e' = fst e \<and> ep_count (snd e') = ep_count (snd e) \<and> ep_errors (snd e') = ep_errors (snd e)
     \<and> ep_response_times (snd e') = ep_response_times (snd e)"
  by (cases e) (auto simp: finalize_endpoint_def bind_exn_def split: if_splits sum.splits option.splits)

lemma finalize_endpoints_sums:
  "finalize_endpoints th eps = Inr eps' \<Longrightarrow>
     count_sum eps' = count_sum eps \<and> error_sum eps' = error_sum eps"
proof (induction eps arbitrary: eps')
  case Nil
  then show ?case by simp
next
  case (Cons e eps)
  then show ?case
    by (auto simp: bind_exn_def count_sum_def error_sum_def split: sum.splits
             dest!: finalize_endpoint_same)
qed

lemma analyze_Some:
  assumes "analyze_k6_json_with_timeline fmt cfg (Some lines) = Inr (Some s)"
  obtains st eps where "analyze_lines fmt cfg lines init_state = Inr st"
    and "response_times st \<noteq> []"
    and "compute_stats cfg st = Inr s"
    and "finalize_endpoints (get_thresholds cfg) (endpoint_stats st) = Inr eps"
    and "st_endpoint_stats s = eps" and "st_total_requests s = total_requests st"
    and "st_error_count s = error_count st"
  using assms
  by (auto simp: analyze_k6_json_with_timeline_def compute_stats_def bind_exn_def
           split: sum.splits if_splits)

lemma two_endpoints_analysis:
  "analyze_k6_json_with_timeline no_str no_config (Some two_endpoints) = Inr (Some two_endpoints_stats)"
  by code_simp

lemma two_endpoints_string_tags: "list_all string_tags two_endpoints"
  by code_simp

text \<open>
  Claim C3: after analyzing any telemetry stream (any sequence of input lines, well-formed or
  not), the global \<open>total_requests\<close> equals the sum over all endpoints of the per-endpoint
  count, and the global \<open>error_count\<close> equals the sum over all endpoints of the per-endpoint
  errors.  The code does not keep the first equality.  The two error counters are incremented
  together (lines 152 and 153), but the two request counters are not: \<^verbatim>\<open>total_requests\<close> is
  incremented at line 112, before the label of the point is resolved, the count of the
  endpoint only at line 149.  A duration point whose \<^verbatim>\<open>route\<close> tag is a JSON array passes
  \<^verbatim>\<open>value > 0\<close> and is counted in \<^verbatim>\<open>total_requests\<close>; the array then is an unhashable key
  at line 144 and the \<^verbatim>\<open>TypeError\<close> is swallowed at line 155.  The analysis of the stream of
  that one line returns statistics with one request in total and no endpoint entry at all.
\<close>

theorem unhashable_route_counterexample:
  "map_sum id (map_option st_total_requests)
     (analyze_k6_json_with_timeline no_str no_config (Some [list_route_point])) = Inr (Some 1)
   \<and> map_sum id (map_option st_endpoint_stats)
     (analyze_k6_json_with_timeline no_str no_config (Some [list_route_point])) = Inr (Some [])
   \<and> count_sum [] = 0"
  by code_simp

text \<open>
  What the loop does keep, whatever the lines are: the global \<open>error_count\<close> is the sum of
  the per-endpoint errors, and a request that is counted in an endpoint has been counted in
  \<open>total_requests\<close>.  The requests that \<open>total_requests\<close> counts and no endpoint does are
  those of the kind above: when the tags of every \<^verbatim>\<open>http_req_duration\<close> point of the stream
  are strings, there is none.
\<close>

lemma counted_requests:
  assumes "analyze_k6_json_with_timeline fmt routes_config (Some lines) = Inr (Some s)"
  shows "st_error_count s = error_sum (st_endpoint_stats s)
       \<and> count_sum (st_endpoint_stats s) \<le> st_total_requests s
       \<and> (list_all string_tags lines \<longrightarrow> st_total_requests s = count_sum (st_endpoint_stats s))"
proof -
  obtain st eps where a: "analyze_lines fmt routes_config lines init_state = Inr st"
    and f: "finalize_endpoints (get_thresholds routes_config) (endpoint_stats st) = Inr eps"
    and s: "st_endpoint_stats s = eps" "st_total_requests s = total_requests st"
           "st_error_count s = error_count st"
    using analyze_Some [OF assms] by metis
  have i: "error_count init_state = error_sum (endpoint_stats init_state)"
          "count_sum (endpoint_stats init_state) = total_requests init_state"
    by (simp_all add: init_state_def error_sum_def count_sum_def)
  show ?thesis
    using analyze_lines_errors [OF a i(1)] analyze_lines_le [OF a] analyze_lines_eq [OF a _ i(2)]
          finalize_endpoints_sums [OF f] s i(2)
    by simp
qed

lemma counted_requests_two_endpoints:
  "analyze_k6_json_with_timeline no_str no_config (Some two_endpoints) = Inr (Some two_endpoints_stats)
   \<and> list_all string_tags two_endpoints
   \<and> st_error_count two_endpoints_stats = 1
   \<and> error_sum (st_endpoint_stats two_endpoints_stats) = 1
   \<and> st_total_requests two_endpoints_stats = 3
   \<and> count_sum (st_endpoint_stats two_endpoints_stats) = 3"
  using counted_requests [OF two_endpoints_analysis] two_endpoints_analysis
    two_endpoints_string_tags
  by (simp add: two_endpoints_stats_def)

subsection \<open>Percentiles\<close>

lemma py_max_Max: "xs \<noteq> [] \<Longrightarrow> py_max xs = Inr (Max (set xs))"
  by (cases xs) (simp_all add: py_max_def Max.set_eq_fold [symmetric])

lemma p95_of_percentile:
  assumes "xs \<noteq> []"
  shows "\<exists>p. p95_of xs = Inr p \<and> is_percentile 20 xs p"
proof (cases "length xs < 20")
  case True
  then show ?thesis using assms by (simp add: p95_of_def is_percentile_def py_max_Max)
next
  case False
  then show ?thesis
    by (simp add: p95_of_def is_percentile_def quantiles_def bind_exn_def Let_def)
qed

lemma p99_of_percentile:
  assumes "xs \<noteq> []"
  shows "\<exists>p. p99_of xs = Inr p \<and> is_percentile 100 xs p"
proof (cases "length xs < 100")
  case True
  then show ?thesis using assms by (simp add: p99_of_def is_percentile_def py_max_Max)
next
  case False
  then show ?thesis
    by (simp add: p99_of_def is_percentile_def quantiles_def bind_exn_def Let_def)
qed

lemma upd_endpoint_nonempty:
  assumes "list_all (\<lambda>e. ep_response_times (snd e) \<noteq> []) eps"
    and "\<And>d. ep_response_times (f d) \<noteq> []"
  shows "list_all (\<lambda>e. ep_response_times (snd e) \<noteq> []) (upd_endpoint k f eps)"
  using assms by (induction eps) auto

lemma upd_endpoint_keys:
  "map fst (upd_endpoint k f eps) = (if k \<in> set (map fst eps) then map fst eps else map fst eps @ [k])"
  by (induction eps) force+

lemma upd_endpoint_keep:
  assumes "list_all (\<lambda>e. ep_response_times (snd e) \<noteq> []) eps"
    and "\<And>d. ep_response_times (f d) = ep_response_times d"
    and "k \<in> set (map fst eps)"
  shows "list_all (\<lambda>e. ep_response_times (snd e) \<noteq> []) (upd_endpoint k f eps)"
  using assms by (induction eps) force+

lemma handle_duration_samples:
  assumes "handle_duration fmt cfg data st = (st', r)" and "samples_ok st"
  shows "samples_ok st'"
proof -
  have a: "samples_ok (record_point s t v tg)" if "samples_ok s" for s t v tg
    using that by (simp add: samples_ok_def record_point_def)
  have b: "samples_ok (record_endpoint s k t v) \<and> k \<in> set (map fst (endpoint_stats (record_endpoint s k t v)))"
    if "samples_ok s" for s t v k
    using that by (simp add: samples_ok_def record_endpoint_def upd_endpoint_nonempty upd_endpoint_keys)
  have c: "samples_ok (record_error s k)" if "samples_ok s" "k \<in> set (map fst (endpoint_stats s))" for s k
    using that by (simp add: samples_ok_def record_error_def upd_endpoint_keep)
  show ?thesis
    using assms a b c unfolding handle_duration_def
    by (auto simp: Let_def split: option.splits json.splits sum.splits bool.splits if_splits)
qed

lemma process_line_samples:
  assumes "process_line fmt cfg line st = (st', r)" and "samples_ok st"
  shows "samples_ok st'"
proof -
  have "samples_ok s'" if "handle_vus data s = (s', q)" "samples_ok s" for data s s' q
    using that by (auto simp: handle_vus_def samples_ok_def Let_def split: option.splits json.splits)
  then show ?thesis
    using assms handle_duration_samples
    by (fastforce simp: process_line_def split: loaded.splits json.splits if_splits)
qed

lemma analyze_lines_samples:
  assumes "analyze_lines fmt cfg lines st = Inr st'" and "samples_ok st"
  shows "samples_ok st'"
  using assms
proof (induction lines arbitrary: st)
  case Nil
  then show ?case by simp
next
  case (Cons line rest)
  obtain l where l: "line = Text l"
    using Cons.prems(1) by (cases line) simp_all
  obtain st1 r where p: "process_line fmt cfg l (st\<lparr>line_count := line_count st + 1\<rparr>) = (st1, r)"
    by (cases "process_line fmt cfg l (st\<lparr>line_count := line_count st + 1\<rparr>)")
  have "samples_ok (st\<lparr>line_count := line_count st + 1\<rparr>)"
    using Cons.prems(2) by (simp add: samples_ok_def)
  then have "samples_ok st1" using process_line_samples [OF p] by simp
  moreover have "analyze_lines fmt cfg rest st1 = Inr st'"
    using Cons.prems(1) p l by (auto split: option.splits if_splits)
  ultimately show ?case using Cons.IH by blast
qed

lemma finalize_endpoint_p95:
  assumes "finalize_endpoint th e = Inr e'" and "ep_response_times (snd e) \<noteq> []"
  shows "ep_response_times (snd e') = ep_response_times (snd e)
       \<and> (\<exists>p. ep_p95 (snd e') = Some p \<and> is_percentile 20 (ep_response_times (snd e)) p)"
proof -
  obtain p where "p95_of (ep_response_times (snd e)) = Inr p"
    and "is_percentile 20 (ep_response_times (snd e)) p"
    using p95_of_percentile [OF assms(2)] by blast
  then show ?thesis
    using assms by (cases e) (auto simp: finalize_endpoint_def bind_exn_def split: option.splits)
qed

lemma finalize_endpoints_p95:
  assumes "finalize_endpoints th eps = Inr eps'"
    and "list_all (\<lambda>e. ep_response_times (snd e) \<noteq> []) eps"
  shows "\<forall>e\<in>set eps'. ep_response_times (snd e) \<noteq> []
          \<and> (\<exists>p. ep_p95 (snd e) = Some p \<and> is_percentile 20 (ep_response_times (snd e)) p)"
  using assms
proof (induction eps arbitrary: eps')
  case Nil
  then show ?case by simp
next
  case (Cons e eps)
  obtain e1 es1 where e1: "finalize_endpoint th e = Inr e1"
    and es1: "finalize_endpoints th eps = Inr es1" and eq: "eps' = e1 # es1"
    using Cons.prems(1) by (auto simp: bind_exn_def split: sum.splits)
  show ?case
    using finalize_endpoint_p95 [OF e1] Cons.IH [OF es1] Cons.prems(2) eq by auto
qed

lemma analyze_Some_stats:
  assumes "analyze_k6_json_with_timeline fmt cfg (Some lines) = Inr (Some s)"
  obtains st eps where "analyze_lines fmt cfg lines init_state = Inr st"
    and "response_times st \<noteq> []"
    and "p95_of (response_times st) = Inr (p95_response_time s)"
    and "p99_of (response_times st) = Inr (p99_response_time s)"
    and "finalize_endpoints (get_thresholds cfg) (endpoint_stats st) = Inr (st_endpoint_stats s)"
    and "st_timeline_data s = timeline_data st"
  using assms
  by (auto simp: analyze_k6_json_with_timeline_def compute_stats_def bind_exn_def
           split: sum.splits if_splits)

text \<open>
  Claim C1: for the global sample and for the sample of every endpoint the reported p95 is the
  maximum of the sample when it has fewer than 20 observations and the cut point of index 18
  of the 20-quantiles of the sorted sample otherwise; the reported p99 of the global sample is
  its maximum below 100 observations and the cut point of index 98 of the 100-quantiles
  otherwise.  Every sample that is reported is non-empty.
\<close>

theorem percentiles_with_fallback:
  assumes "analyze_k6_json_with_timeline fmt routes_config (Some lines) = Inr (Some s)"
  shows "map tp_response_time (st_timeline_data s) \<noteq> []
       \<and> is_percentile 20 (map tp_response_time (st_timeline_data s)) (p95_response_time s)
       \<and> is_percentile 100 (map tp_response_time (st_timeline_data s)) (p99_response_time s)
       \<and> (\<forall>e\<in>set (st_endpoint_stats s).
            ep_response_times (snd e) \<noteq> []
            \<and> (\<exists>p. ep_p95 (snd e) = Some p \<and> is_percentile 20 (ep_response_times (snd e)) p))"
proof -
  obtain st where a: "analyze_lines fmt routes_config lines init_state = Inr st"
    and n: "response_times st \<noteq> []"
    and p95: "p95_of (response_times st) = Inr (p95_response_time s)"
    and p99: "p99_of (response_times st) = Inr (p99_response_time s)"
    and f: "finalize_endpoints (get_thresholds routes_config) (endpoint_stats st) = Inr (st_endpoint_stats s)"
    and t: "st_timeline_data s = timeline_data st"
    using analyze_Some_stats [OF assms] by metis
  have "samples_ok init_state"
    by (simp add: samples_ok_def init_state_def)
  then have ok: "samples_ok st"
    using analyze_lines_samples [OF a] by simp
  then have rt: "map tp_response_time (st_timeline_data s) = response_times st"
    by (simp add: samples_ok_def t)
  have "is_percentile 20 (response_times st) (p95_response_time s)"
    using p95_of_percentile [OF n] p95 by auto
  moreover have "is_percentile 100 (response_times st) (p99_response_time s)"
    using p99_of_percentile [OF n] p99 by auto
  moreover note finalize_endpoints_p95 [OF f] ok n
  ultimately show ?thesis
    unfolding rt by (simp add: samples_ok_def)
qed

lemma twenty_points_analysis:
  "analyze_k6_json_with_timeline no_str no_config (Some twenty_points) = Inr (Some twenty_points_stats)"
  by code_simp

theorem percentiles_with_fallback_witness:
  "analyze_k6_json_with_timeline no_str no_config (Some twenty_points) = Inr (Some twenty_points_stats)
   \<and> is_percentile 20 (map tp_response_time (st_timeline_data twenty_points_stats)) (399 / 20)
   \<and> is_percentile 100 (map tp_response_time (st_timeline_data twenty_points_stats)) 20
   \<and> list_all (\<lambda>e. ep_response_times (snd e) \<noteq> []
        \<and> (\<exists>p. ep_p95 (snd e) = Some p \<and> is_percentile 20 (ep_response_times (snd e)) p))
       (st_endpoint_stats twenty_points_stats)"
  using percentiles_with_fallback [OF twenty_points_analysis] twenty_points_analysis
  by (simp add: twenty_points_stats_def list_all_iff)

subsection \<open>The entries of the endpoint table\<close>

lemma upd_endpoint_all:
  assumes "list_all (\<lambda>e. P (snd e)) eps" and "\<And>d. P d \<Longrightarrow> P (f d)" and "P (f new_ep)"
  shows "list_all (\<lambda>e. P (snd e)) (upd_endpoint k f eps)"
  using assms by (induction eps) auto

lemma handle_duration_counts:
  assumes "handle_duration fmt cfg data st = (st', r)" and "counts_ok st"
  shows "counts_ok st'"
proof -
  have a: "counts_ok (record_point s t v tg)" if "counts_ok s" for s t v tg
    using that by (simp add: counts_ok_def record_point_def)
  have b: "counts_ok (record_endpoint s k t v)" if "counts_ok s" for s t v k
    using that unfolding counts_ok_def record_endpoint_def
    by (auto intro!: upd_endpoint_all simp: new_ep_def)
  have c: "counts_ok (record_error s k)" if "counts_ok s" for s k
    using that unfolding counts_ok_def record_error_def
    by (auto intro!: upd_endpoint_all simp: new_ep_def)
  show ?thesis
    using assms a b c unfolding handle_duration_def
    by (auto simp: Let_def split: option.splits json.splits sum.splits bool.splits if_splits)
qed

lemma process_line_counts:
  assumes "process_line fmt cfg line st = (st', r)" and "counts_ok st"
  shows "counts_ok st'"
proof -
  have "counts_ok s'" if "handle_vus data s = (s', q)" "counts_ok s" for data s s' q
    using that by (auto simp: handle_vus_def counts_ok_def Let_def split: option.splits json.splits)
  then show ?thesis
    using assms handle_duration_counts
    by (fastforce simp: process_line_def split: loaded.splits json.splits if_splits)
qed

lemma analyze_lines_counts:
  assumes "analyze_lines fmt cfg lines st = Inr st'" and "counts_ok st"
  shows "counts_ok st'"
  using assms
proof (induction lines arbitrary: st)
  case Nil
  then show ?case by simp
next
  case (Cons line rest)
  obtain l where l: "line = Text l"
    using Cons.prems(1) by (cases line) simp_all
  obtain st1 r where p: "process_line fmt cfg l (st\<lparr>line_count := line_count st + 1\<rparr>) = (st1, r)"
    by (cases "process_line fmt cfg l (st\<lparr>line_count := line_count st + 1\<rparr>)")
  have "counts_ok (st\<lparr>line_count := line_count st + 1\<rparr>)"
    using Cons.prems(2) by (simp add: counts_ok_def)
  then have "counts_ok st1" using process_line_counts [OF p] by simp
  moreover have "analyze_lines fmt cfg rest st1 = Inr st'"
    using Cons.prems(1) p l by (auto split: option.splits if_splits)
  ultimately show ?case using Cons.IH by blast
qed

lemma find_snoc:
  "find P (xs @ [x]) = (case find P xs of Some y \<Rightarrow> Some y | None \<Rightarrow> if P x then Some x else None)"
  by (induction xs) auto

lemma fill_thresholds_find:
  "fill_thresholds eps th name =
     (case find (\<lambda>c. config_name c = name) (rev eps) of
        Some c \<Rightarrow> Some (threshold_for c)
      | None \<Rightarrow> th name)"
  by (induction eps arbitrary: th) (auto simp: find_snoc config_name_def split: option.splits)

lemma lookup_threshold_configured:
  "lookup_threshold (get_thresholds routes_config) label =
     map_option threshold_for (configured routes_config label)"
  by (cases label; cases "endpoints routes_config")
     (auto simp: lookup_threshold_def get_thresholds_def configured_def get_or_def
                 fill_thresholds_find split: option.splits)

lemma finalize_endpoints_set:
  assumes "finalize_endpoints th eps = Inr eps'" and "e' \<in> set eps'"
  shows "\<exists>e\<in>set eps. finalize_endpoint th e = Inr e'"
  using assms
proof (induction eps arbitrary: eps')
  case Nil
  then show ?case by simp
next
  case (Cons e eps)
  obtain e1 es1 where e1: "finalize_endpoint th e = Inr e1"
    and es1: "finalize_endpoints th eps = Inr es1" and eq: "eps' = e1 # es1"
    using Cons.prems(1) by (auto simp: bind_exn_def split: sum.splits)
  show ?case
    using Cons.IH [OF es1] Cons.prems(2) e1 eq by auto
qed

lemma finalize_endpoint_fields:
  assumes "finalize_endpoint th e = Inr e'" and "ep_response_times (snd e) \<noteq> []"
  shows "fst e' = fst e \<and> ep_response_times (snd e') = ep_response_times (snd e)
       \<and> ep_count (snd e') = ep_count (snd e) \<and> ep_errors (snd e') = ep_errors (snd e)
       \<and> ep_threshold (snd e') = lookup_threshold th (fst e)
       \<and> (\<exists>p. p95_of (ep_response_times (snd e)) = Inr p \<and> ep_p95 (snd e') = Some p
              \<and> ep_threshold_passed (snd e') =
                  Some (case lookup_threshold th (fst e) of Some t \<Rightarrow> p \<le> t | None \<Rightarrow> True))"
  using assms
  by (cases e) (auto simp: finalize_endpoint_def bind_exn_def split: option.splits sum.splits)

lemma final_entry:
  assumes "analyze_k6_json_with_timeline fmt routes_config (Some lines) = Inr (Some s)"
    and "e \<in> set (st_endpoint_stats s)"
  shows "ep_response_times (snd e) \<noteq> []
       \<and> ep_count (snd e) = length (ep_response_times (snd e))
       \<and> ep_threshold (snd e) = map_option threshold_for (configured routes_config (fst e))
       \<and> (\<exists>p. p95_of (ep_response_times (snd e)) = Inr p \<and> ep_p95 (snd e) = Some p
              \<and> ep_threshold_passed (snd e) =
                  Some (case configured routes_config (fst e) of
                          Some c \<Rightarrow> p \<le> threshold_for c | None \<Rightarrow> True))"
proof -
  obtain st where a: "analyze_lines fmt routes_config lines init_state = Inr st"
    and f: "finalize_endpoints (get_thresholds routes_config) (endpoint_stats st) = Inr (st_endpoint_stats s)"
    using analyze_Some_stats [OF assms(1)] by metis
  have "samples_ok init_state" "counts_ok init_state"
    by (simp_all add: samples_ok_def counts_ok_def init_state_def)
  then have ok: "samples_ok st" "counts_ok st"
    using analyze_lines_samples [OF a] analyze_lines_counts [OF a] by simp_all
  obtain e0 where e0: "e0 \<in> set (endpoint_stats st)"
    and fe: "finalize_endpoint (get_thresholds routes_config) e0 = Inr e"
    using finalize_endpoints_set [OF f assms(2)] by blast
  have n: "ep_response_times (snd e0) \<noteq> []"
    and c: "ep_count (snd e0) = length (ep_response_times (snd e0))"
    using ok e0 by (auto simp: samples_ok_def counts_ok_def list_all_iff)
  show ?thesis
    using finalize_endpoint_fields [OF fe n] n c
    by (simp add: lookup_threshold_configured) (auto split: option.splits)
qed

lemma make_row_fields:
  assumes "ep_response_times (snd e) \<noteq> []"
  shows "\<exists>row. make_row fmt e = Inr row
       \<and> row_success_rate row = success_rate_of (snd e)
       \<and> row_threshold row = ep_threshold (snd e)
       \<and> row_threshold_passed row = get_or (ep_threshold_passed (snd e)) True
       \<and> row_status_text row =
           (if 95 \<le> success_rate_of (snd e) \<and> get_or (ep_threshold_passed (snd e)) True then excellent_text
            else if 90 \<le> success_rate_of (snd e) \<and> get_or (ep_threshold_passed (snd e)) True then good_text
            else needs_attention_text)
       \<and> row_threshold_display row =
           (case ep_threshold (snd e) of
              Some t \<Rightarrow> if t \<noteq> 0 then py_format fmt (JNum t) @ ''ms'' else ''N/A''
            | None \<Rightarrow> ''N/A'')"
proof -
  obtain x xs where "ep_response_times (snd e) = x # xs"
    using assms by (cases "ep_response_times (snd e)") auto
  then show ?thesis
    by (cases e) (simp add: make_row_def mean_def py_min_def py_max_def bind_exn_def Let_def
                            success_rate_of_def)
qed

lemma endpoint_rows_all:
  assumes "\<forall>e\<in>set eps. \<exists>row. make_row fmt e = Inr row"
  shows "\<exists>rows. endpoint_rows fmt eps = Inr rows
           \<and> (\<forall>e\<in>set eps. 0 < ep_count (snd e) \<longrightarrow> (\<exists>row\<in>set rows. make_row fmt e = Inr row))"
  using assms
proof (induction eps)
  case Nil
  then show ?case by simp
next
  case (Cons e eps)
  obtain row where row: "make_row fmt e = Inr row"
    using Cons.prems by auto
  obtain rows where rows: "endpoint_rows fmt eps = Inr rows"
    and mem: "\<forall>e\<in>set eps. 0 < ep_count (snd e) \<longrightarrow> (\<exists>row\<in>set rows. make_row fmt e = Inr row)"
    using Cons.IH Cons.prems by auto
  show ?case
  proof (cases "0 < ep_count (snd e)")
    case True
    then have "endpoint_rows fmt (e # eps) = Inr (row # rows)"
      by (simp add: row rows bind_exn_def)
    then show ?thesis using row mem by auto
  next
    case False
    then have "endpoint_rows fmt (e # eps) = Inr rows"
      by (simp add: rows)
    then show ?thesis using False mem by auto
  qed
qed

text \<open>
  Claim C4: every endpoint of an analysis has count > 0 and gets a row in the endpoint table;
  with successRate = (count - errors) / count * 100, the status text of the row is the
  "Excellent" text when successRate \<ge> 95 and the threshold passed, the "Good" text when
  90 \<le> successRate < 95 and the threshold passed, and the "Needs Attention" text otherwise.
  In particular scenario A (durations 100, 120, 110, 5000 with status 500, 130 on one endpoint,
  no threshold configured) gives count = 5, errors = 1, error_rate = 20, p95 = 5000,
  threshold passed, successRate = 80 and the "Needs Attention" text.
\<close>

theorem status_label_classification:
  assumes "analyze_k6_json_with_timeline fmt routes_config (Some lines) = Inr (Some s)"
    and "e \<in> set (st_endpoint_stats s)"
  shows "0 < ep_count (snd e)
       \<and> (\<exists>rows row. endpoint_rows fmt (st_endpoint_stats s) = Inr rows \<and> row \<in> set rows
            \<and> make_row fmt e = Inr row
            \<and> row_success_rate row = success_rate_of (snd e)
            \<and> row_threshold_passed row = (ep_threshold_passed (snd e) = Some True)
            \<and> (95 \<le> row_success_rate row \<and> row_threshold_passed row
                  \<longrightarrow> row_status_text row = excellent_text)
            \<and> (90 \<le> row_success_rate row \<and> row_success_rate row < 95 \<and> row_threshold_passed row
                  \<longrightarrow> row_status_text row = good_text)
            \<and> (\<not> (90 \<le> row_success_rate row \<and> row_threshold_passed row)
                  \<longrightarrow> row_status_text row = needs_attention_text))
       \<and> map_sum id (map_option st_total_requests)
            (analyze_k6_json_with_timeline no_str no_config (Some scenario_A)) = Inr (Some 5)
       \<and> map_sum id (map_option st_error_count)
            (analyze_k6_json_with_timeline no_str no_config (Some scenario_A)) = Inr (Some 1)
       \<and> map_sum id (map_option st_error_rate)
            (analyze_k6_json_with_timeline no_str no_config (Some scenario_A)) = Inr (Some 20)
       \<and> map_sum id (map_option st_endpoint_stats)
            (analyze_k6_json_with_timeline no_str no_config (Some scenario_A))
          = Inr (Some [(JStr ''X'', scenario_A_entry)])
       \<and> ep_count scenario_A_entry = 5 \<and> ep_errors scenario_A_entry = 1
       \<and> ep_p95 scenario_A_entry = Some 5000 \<and> ep_threshold scenario_A_entry = None
       \<and> ep_threshold_passed scenario_A_entry = Some True
       \<and> map_sum id row_success_rate (make_row no_str (JStr ''X'', scenario_A_entry)) = Inr 80
       \<and> map_sum id row_status_text (make_row no_str (JStr ''X'', scenario_A_entry))
          = Inr needs_attention_text"
proof -
  have fe: "ep_response_times (snd e) \<noteq> []"
    "ep_count (snd e) = length (ep_response_times (snd e))"
    "\<exists>p. ep_threshold_passed (snd e) =
        Some (case configured routes_config (fst e) of Some c \<Rightarrow> p \<le> threshold_for c | None \<Rightarrow> True)"
    using final_entry [OF assms] by blast+
  have pos: "0 < ep_count (snd e)"
    using fe(1,2) by simp
  have passed: "get_or (ep_threshold_passed (snd e)) True = (ep_threshold_passed (snd e) = Some True)"
    using fe(3) by (auto simp: get_or_def)
  have "\<forall>e\<in>set (st_endpoint_stats s). \<exists>row. make_row fmt e = Inr row"
  proof
    fix e' assume "e' \<in> set (st_endpoint_stats s)"
    then have "ep_response_times (snd e') \<noteq> []"
      using final_entry [OF assms(1)] by blast
    then show "\<exists>row. make_row fmt e' = Inr row"
      using make_row_fields by blast
  qed
  then obtain rows where rows: "endpoint_rows fmt (st_endpoint_stats s) = Inr rows"
    and mem: "\<forall>e\<in>set (st_endpoint_stats s). 0 < ep_count (snd e)
                 \<longrightarrow> (\<exists>row\<in>set rows. make_row fmt e = Inr row)"
    using endpoint_rows_all by blast
  obtain row where row: "make_row fmt e = Inr row" "row \<in> set rows"
    using mem assms(2) pos by blast
  obtain row' where row': "make_row fmt e = Inr row'"
    "row_success_rate row' = success_rate_of (snd e)"
    "row_threshold_passed row' = get_or (ep_threshold_passed (snd e)) True"
    "row_status_text row' =
           (if 95 \<le> success_rate_of (snd e) \<and> get_or (ep_threshold_passed (snd e)) True then excellent_text
            else if 90 \<le> success_rate_of (snd e) \<and> get_or (ep_threshold_passed (snd e)) True then good_text
            else needs_attention_text)"
    using make_row_fields [OF fe(1), of fmt] by blast
  have eq: "row' = row"
    using row(1) row'(1) by simp
  have general: "\<exists>rows row. endpoint_rows fmt (st_endpoint_stats s) = Inr rows \<and> row \<in> set rows
            \<and> make_row fmt e = Inr row
            \<and> row_success_rate row = success_rate_of (snd e)
            \<and> row_threshold_passed row = (ep_threshold_passed (snd e) = Some True)
            \<and> (95 \<le> row_success_rate row \<and> row_threshold_passed row
                  \<longrightarrow> row_status_text row = excellent_text)
            \<and> (90 \<le> row_success_rate row \<and> row_success_rate row < 95 \<and> row_threshold_passed row
                  \<longrightarrow> row_status_text row = good_text)
            \<and> (\<not> (90 \<le> row_success_rate row \<and> row_threshold_passed row)
                  \<longrightarrow> row_status_text row = needs_attention_text)"
    apply (rule exI [of _ rows])
    apply (rule exI [of _ row])
    using rows row row'(2,3,4) [unfolded passed eq]
    apply auto
    done
  have a1: "map_sum id (map_option st_total_requests)
            (analyze_k6_json_with_timeline no_str no_config (Some scenario_A)) = Inr (Some 5)"
    by code_simp
  have a2: "map_sum id (map_option st_error_count)
            (analyze_k6_json_with_timeline no_str no_config (Some scenario_A)) = Inr (Some 1)"
    by code_simp
  have a3: "map_sum id (map_option st_error_rate)
            (analyze_k6_json_with_timeline no_str no_config (Some scenario_A)) = Inr (Some 20)"
    by code_simp
  have a4: "map_sum id (map_option st_endpoint_stats)
            (analyze_k6_json_with_timeline no_str no_config (Some scenario_A))
          = Inr (Some [(JStr ''X'', scenario_A_entry)])"
    by code_simp
  have a5: "map_sum id row_success_rate (make_row no_str (JStr ''X'', scenario_A_entry)) = Inr 80"
    by code_simp
  have a6: "map_sum id row_status_text (make_row no_str (JStr ''X'', scenario_A_entry))
          = Inr needs_attention_text"
    by code_simp
  have a7: "ep_count scenario_A_entry = 5" "ep_errors scenario_A_entry = 1"
    "ep_p95 scenario_A_entry = Some 5000" "ep_threshold scenario_A_entry = None"
    "ep_threshold_passed scenario_A_entry = Some True"
    by (simp_all add: scenario_A_entry_def)
  show ?thesis
    using pos general a1 a2 a3 a4 a7 a5 a6 by - (intro conjI; assumption)
qed

theorem status_label_classification_witness:
  "analyze_k6_json_with_timeline no_str no_config (Some two_endpoints) = Inr (Some two_endpoints_stats)
   \<and> hd (st_endpoint_stats two_endpoints_stats) \<in> set (st_endpoint_stats two_endpoints_stats)
   \<and> map_sum id row_success_rate (make_row no_str (hd (st_endpoint_stats two_endpoints_stats))) = Inr 100
   \<and> map_sum id row_threshold_passed (make_row no_str (hd (st_endpoint_stats two_endpoints_stats))) = Inr True
   \<and> map_sum id row_status_text (make_row no_str (hd (st_endpoint_stats two_endpoints_stats)))
      = Inr excellent_text"
proof -
  have m: "hd (st_endpoint_stats two_endpoints_stats) \<in> set (st_endpoint_stats two_endpoints_stats)"
    by (simp add: two_endpoints_stats_def)
  have sr: "success_rate_of (snd (hd (st_endpoint_stats two_endpoints_stats))) = 100"
    by (simp add: two_endpoints_stats_def success_rate_of_def)
  have tp: "ep_threshold_passed (snd (hd (st_endpoint_stats two_endpoints_stats))) = Some True"
    by (simp add: two_endpoints_stats_def)
  show ?thesis
    using status_label_classification [OF two_endpoints_analysis m] two_endpoints_analysis m sr tp
    by auto
qed

subsection \<open>Thresholds\<close>

lemma slow_reports_analysis:
  "analyze_k6_json_with_timeline no_str dashboard_config (Some slow_reports) = Inr (Some slow_reports_stats)"
  by code_simp

lemma student_analysis:
  "analyze_k6_json_with_timeline no_str student_config (Some student_requests) = Inr (Some student_stats)"
  by code_simp

lemma configured_None:
  assumes "\<forall>c\<in>set (get_or (endpoints routes_config) []). label \<noteq> JStr (config_name c)"
  shows "configured routes_config label = None"
  using assms by (cases label) (auto simp: configured_def find_None_iff)

text \<open>
  Claim C10: an endpoint whose label is not the configured name of any endpoint of the
  configuration gets no threshold, neither explicit nor default: its threshold is absent and
  shown as N/A, its threshold-passed flag is true whatever its p95, and its status text is
  "Excellent" as soon as its success rate is at least 95.
\<close>

theorem unconfigured_label_has_no_threshold:
  assumes "analyze_k6_json_with_timeline fmt routes_config (Some lines) = Inr (Some s)"
    and "e \<in> set (st_endpoint_stats s)"
    and "\<forall>c\<in>set (get_or (endpoints routes_config) []). fst e \<noteq> JStr (config_name c)"
  shows "ep_threshold (snd e) = None
       \<and> ep_threshold_passed (snd e) = Some True
       \<and> (\<exists>row. make_row fmt e = Inr row
            \<and> row_threshold row = None
            \<and> row_threshold_display row = ''N/A''
            \<and> row_threshold_passed row
            \<and> (95 \<le> row_success_rate row \<longrightarrow> row_status_text row = excellent_text))"
proof -
  have none: "configured routes_config (fst e) = None"
    using configured_None [OF assms(3)] .
  have fe: "ep_response_times (snd e) \<noteq> []"
    "ep_threshold (snd e) = map_option threshold_for (configured routes_config (fst e))"
    "\<exists>p. ep_threshold_passed (snd e) =
        Some (case configured routes_config (fst e) of Some c \<Rightarrow> p \<le> threshold_for c | None \<Rightarrow> True)"
    using final_entry [OF assms(1,2)] by blast+
  have th: "ep_threshold (snd e) = None" and tp: "ep_threshold_passed (snd e) = Some True"
    using fe(2,3) by (simp_all add: none)
  obtain row where row: "make_row fmt e = Inr row"
    "row_success_rate row = success_rate_of (snd e)"
    "row_threshold row = ep_threshold (snd e)"
    "row_threshold_passed row = get_or (ep_threshold_passed (snd e)) True"
    "row_status_text row =
           (if 95 \<le> success_rate_of (snd e) \<and> get_or (ep_threshold_passed (snd e)) True then excellent_text
            else if 90 \<le> success_rate_of (snd e) \<and> get_or (ep_threshold_passed (snd e)) True then good_text
            else needs_attention_text)"
    "row_threshold_display row =
           (case ep_threshold (snd e) of
              Some t \<Rightarrow> if t \<noteq> 0 then py_format fmt (JNum t) @ ''ms'' else ''N/A''
            | None \<Rightarrow> ''N/A'')"
    using make_row_fields [OF fe(1), of fmt] by blast
  have "\<exists>row. make_row fmt e = Inr row
            \<and> row_threshold row = None
            \<and> row_threshold_display row = ''N/A''
            \<and> row_threshold_passed row
            \<and> (95 \<le> row_success_rate row \<longrightarrow> row_status_text row = excellent_text)"
    using row by (intro exI [of _ row]) (simp add: th tp get_or_def)
  then show ?thesis using th tp by simp
qed

theorem unconfigured_label_has_no_threshold_witness:
  "analyze_k6_json_with_timeline no_str dashboard_config (Some slow_reports) = Inr (Some slow_reports_stats)
   \<and> slow_reports_entry \<in> set (st_endpoint_stats slow_reports_stats)
   \<and> list_all (\<lambda>c. fst slow_reports_entry \<noteq> JStr (config_name c))
        (get_or (endpoints dashboard_config) [])
   \<and> ep_p95 (snd slow_reports_entry) = Some 60000
   \<and> ep_threshold (snd slow_reports_entry) = None
   \<and> ep_threshold_passed (snd slow_reports_entry) = Some True
   \<and> map_sum id row_threshold_display (make_row no_str slow_reports_entry) = Inr ''N/A''
   \<and> map_sum id row_success_rate (make_row no_str slow_reports_entry) = Inr 100
   \<and> map_sum id row_status_text (make_row no_str slow_reports_entry) = Inr excellent_text"
proof -
  have m: "slow_reports_entry \<in> set (st_endpoint_stats slow_reports_stats)"
    by (simp add: slow_reports_stats_def)
  have n: "\<forall>c\<in>set (get_or (endpoints dashboard_config) []). fst slow_reports_entry \<noteq> JStr (config_name c)"
    by (simp add: dashboard_config_def get_or_def slow_reports_entry_def config_name_def)
  have sr: "success_rate_of (snd slow_reports_entry) = 100"
    by (simp add: slow_reports_entry_def success_rate_of_def)
  have p: "ep_p95 (snd slow_reports_entry) = Some 60000"
    by (simp add: slow_reports_entry_def)
  obtain row where "make_row no_str slow_reports_entry = Inr row" "row_threshold_display row = ''N/A''"
    "95 \<le> row_success_rate row \<longrightarrow> row_status_text row = excellent_text"
    "ep_threshold (snd slow_reports_entry) = None"
    "ep_threshold_passed (snd slow_reports_entry) = Some True"
    using unconfigured_label_has_no_threshold [OF slow_reports_analysis m n] by blast
  moreover have "map_sum id row_success_rate (make_row no_str slow_reports_entry) = Inr 100"
    by code_simp
  ultimately show ?thesis
    using slow_reports_analysis m n p by (auto simp: list_all_iff)
qed

text \<open>
  Claim C5, as stated, fails: "for every endpoint, the threshold compared against p95 is the
  explicit \<^verbatim>\<open>threshold_ms\<close> when present, otherwise a derived default".  An endpoint labelled
  "Student List API" by its route tag, with no configuration, has a p95 of 3000 ms and gets
  no threshold at all (not 2500 ms) and the flag threshold-passed; and a configured
  \<^verbatim>\<open>threshold_ms\<close> of 0 is present but not used: the default (2000 ms here) is.
\<close>

theorem route_label_threshold_counterexample:
  "map_sum id (map_option st_endpoint_stats)
     (analyze_k6_json_with_timeline no_str no_config (Some [student_route_request]))
   = Inr (Some [student_route_entry])
   \<and> fst student_route_entry = JStr ''Student List API''
   \<and> ep_p95 (snd student_route_entry) = Some 3000
   \<and> ep_threshold (snd student_route_entry) = None
   \<and> ep_threshold_passed (snd student_route_entry) = Some True
   \<and> cfg_threshold_ms zero_threshold_cfg = Some 0
   \<and> threshold_for zero_threshold_cfg = 2000"
proof -
  have "map_sum id (map_option st_endpoint_stats)
     (analyze_k6_json_with_timeline no_str no_config (Some [student_route_request]))
   = Inr (Some [student_route_entry])"
    by code_simp
  moreover have "threshold_for zero_threshold_cfg = 2000"
    by code_simp
  ultimately show ?thesis
    by (simp add: student_route_entry_def zero_threshold_cfg_def)
qed

text \<open>
  Claim C5, amended: a threshold is assigned only to an endpoint whose label is the name of a
  configured endpoint, and it is the one of the last configured endpoint of that name: its
  \<^verbatim>\<open>threshold_ms\<close> when present and not 0, otherwise the default chosen by case-insensitive
  substring tests on the name in this priority: "dashboard" gives 1500 ms; "student" and
  "list" 2500 ms; "student" and "details" 1500 ms; "course" 5000 ms; anything else 2000 ms.
  For such an endpoint threshold-passed holds exactly when p95 \<le> threshold.  An endpoint with
  any other label has no threshold and threshold-passed is true.  In particular the name
  "Student List API" without an explicit threshold gets 2500 ms.
\<close>

theorem configured_threshold_lookup:
  assumes "analyze_k6_json_with_timeline fmt routes_config (Some lines) = Inr (Some s)"
    and "e \<in> set (st_endpoint_stats s)"
  shows "(\<exists>p. ep_p95 (snd e) = Some p
            \<and> (case configured routes_config (fst e) of
                  Some c \<Rightarrow> ep_threshold (snd e) = Some (threshold_for c)
                             \<and> ep_threshold_passed (snd e) = Some (p \<le> threshold_for c)
                | None \<Rightarrow> ep_threshold (snd e) = None
                           \<and> ep_threshold_passed (snd e) = Some True))
       \<and> (\<forall>c t. cfg_threshold_ms c = Some t \<and> t \<noteq> 0 \<longrightarrow> threshold_for c = t)
       \<and> (\<forall>c. cfg_threshold_ms c = None \<or> cfg_threshold_ms c = Some 0
               \<longrightarrow> threshold_for c = default_threshold (config_name c))
       \<and> (\<forall>n. contains ''dashboard'' (lower n) \<longrightarrow> default_threshold n = 1500)
       \<and> (\<forall>n. \<not> contains ''dashboard'' (lower n)
               \<and> contains ''student'' (lower n) \<and> contains ''list'' (lower n)
               \<longrightarrow> default_threshold n = 2500)
       \<and> (\<forall>n. \<not> contains ''dashboard'' (lower n)
               \<and> contains ''student'' (lower n) \<and> \<not> contains ''list'' (lower n)
               \<and> contains ''details'' (lower n)
               \<longrightarrow> default_threshold n = 1500)
       \<and> (\<forall>n. \<not> contains ''dashboard'' (lower n)
               \<and> \<not> (contains ''student'' (lower n) \<and> contains ''list'' (lower n))
               \<and> \<not> (contains ''student'' (lower n) \<and> contains ''details'' (lower n))
               \<and> contains ''course'' (lower n)
               \<longrightarrow> default_threshold n = 5000)
       \<and> (\<forall>n. \<not> contains ''dashboard'' (lower n)
               \<and> \<not> (contains ''student'' (lower n) \<and> contains ''list'' (lower n))
               \<and> \<not> (contains ''student'' (lower n) \<and> contains ''details'' (lower n))
               \<and> \<not> contains ''course'' (lower n)
               \<longrightarrow> default_threshold n = 2000)
       \<and> default_threshold ''Student List API'' = 2500"
proof -
  have fe: "ep_threshold (snd e) = map_option threshold_for (configured routes_config (fst e))"
    "\<exists>p. ep_p95 (snd e) = Some p
        \<and> ep_threshold_passed (snd e) =
            Some (case configured routes_config (fst e) of Some c \<Rightarrow> p \<le> threshold_for c | None \<Rightarrow> True)"
    using final_entry [OF assms] by blast+
  have entry: "\<exists>p. ep_p95 (snd e) = Some p
            \<and> (case configured routes_config (fst e) of
                  Some c \<Rightarrow> ep_threshold (snd e) = Some (threshold_for c)
                             \<and> ep_threshold_passed (snd e) = Some (p \<le> threshold_for c)
                | None \<Rightarrow> ep_threshold (snd e) = None
                           \<and> ep_threshold_passed (snd e) = Some True)"
    using fe by (cases "configured routes_config (fst e)") auto
  have explicit: "\<forall>c t. cfg_threshold_ms c = Some t \<and> t \<noteq> 0 \<longrightarrow> threshold_for c = t"
    by (simp add: threshold_for_def)
  have derived: "\<forall>c. cfg_threshold_ms c = None \<or> cfg_threshold_ms c = Some 0
               \<longrightarrow> threshold_for c = default_threshold (config_name c)"
    by (auto simp: threshold_for_def config_name_def)
  have student: "default_threshold ''Student List API'' = 2500"
    by code_simp
  show ?thesis
    using entry explicit derived student
    by (simp add: default_threshold_def)
qed

theorem configured_threshold_lookup_witness:
  "analyze_k6_json_with_timeline no_str student_config (Some student_requests) = Inr (Some student_stats)
   \<and> student_list_entry \<in> set (st_endpoint_stats student_stats)
   \<and> configured student_config (fst student_list_entry) = Some student_list_cfg
   \<and> cfg_threshold_ms student_list_cfg = None
   \<and> threshold_for student_list_cfg = 2500
   \<and> ep_p95 (snd student_list_entry) = Some 3000
   \<and> ep_threshold (snd student_list_entry) = Some 2500
   \<and> ep_threshold_passed (snd student_list_entry) = Some False"
proof -
  have m: "student_list_entry \<in> set (st_endpoint_stats student_stats)"
    by (simp add: student_stats_def)
  have c: "configured student_config (fst student_list_entry) = Some student_list_cfg"
    by code_simp
  have n: "cfg_threshold_ms student_list_cfg = None" "config_name student_list_cfg = ''Student List API''"
    by (simp_all add: student_list_cfg_def config_name_def get_or_def)
  have t: "threshold_for student_list_cfg = 2500"
    using configured_threshold_lookup [OF student_analysis m] n by simp
  have p: "ep_p95 (snd student_list_entry) = Some 3000"
    by (simp add: student_list_entry_def)
  have "ep_threshold (snd student_list_entry) = Some 2500
      \<and> ep_threshold_passed (snd student_list_entry) = Some False"
    using configured_threshold_lookup [OF student_analysis m] c t p by auto
  then show ?thesis
    using student_analysis m c n(1) t p by simp
qed

subsection \<open>Endpoint resolution\<close>

lemma match_endpoints_find:
  "match_endpoints (JStr u) (JStr m) eps =
     Inr (case find (\<lambda>c. contains (lstrip_slash (get_or (cfg_url c) '''')) u
                          \<and> upper (get_or (cfg_method c) ''GET'') = upper m) eps of
            Some c \<Rightarrow> (Some (config_name c), Some (get_or (cfg_description c) (config_name c)))
          | None \<Rightarrow> (None, None))"
  by (induction eps) (auto simp: Let_def config_name_def split: bool.splits)

lemma get_endpoint_info_matching:
  "get_endpoint_info_from_config (JStr u) (JStr m) routes_config =
     Inr (case matching_endpoint routes_config u m of
            Some c \<Rightarrow> (Some (config_name c), Some (get_or (cfg_description c) (config_name c)))
          | None \<Rightarrow> (None, None))"
  by (cases "endpoints routes_config")
     (simp_all add: get_endpoint_info_from_config_def matching_endpoint_def get_or_def
                    match_endpoints_find)

lemma split_slash_no_slash: "CHR ''/'' \<notin> set u \<Longrightarrow> split_slash u = [u]"
  by (induction u) auto

lemma split_slash_slash:
  "CHR ''/'' \<in> set u \<Longrightarrow> \<exists>s t ss. split_slash u = s # t # ss"
proof (induction u)
  case Nil
  then show ?case by simp
next
  case (Cons c cs)
  show ?case
  proof (cases "c = CHR ''/''")
    case True
    then show ?thesis
      by (cases "CHR ''/'' \<in> set cs") (use Cons.IH split_slash_no_slash in auto)
  next
    case False
    then show ?thesis using Cons by auto
  qed
qed

lemma split_slash_last: "last (split_slash u) = last_segment u"
proof (induction u)
  case Nil
  then show ?case by (simp add: last_segment_def)
next
  case (Cons c cs)
  show ?case
  proof (cases "CHR ''/'' \<in> set cs")
    case True
    then obtain s t ss where s: "split_slash cs = s # t # ss"
      using split_slash_slash by blast
    have "last (split_slash (c # cs)) = last (split_slash cs)"
      by (simp add: s)
    moreover have "last_segment (c # cs) = last_segment cs"
      using True by (simp add: last_segment_def takeWhile_append1)
    ultimately show ?thesis using Cons.IH by simp
  next
    case False
    then have s: "split_slash cs = [cs]"
      by (rule split_slash_no_slash)
    have t: "takeWhile (\<lambda>c. c \<noteq> CHR ''/'') (rev cs @ [c]) = rev cs @ takeWhile (\<lambda>c. c \<noteq> CHR ''/'') [c]"
      using False by (intro takeWhile_append2) auto
    show ?thesis
      by (simp add: s last_segment_def t)
  qed
qed

lemma split_slash_nonempty: "split_slash u \<noteq> []"
  by (cases "CHR ''/'' \<in> set u") (use split_slash_slash split_slash_no_slash in fastforce)+

lemma tag_str_eq:
  assumes "list_all (\<lambda>kv. is_str (snd kv)) tags"
  shows "dict_get tags k (JStr d) = JStr (tag_str tags k d)"
  using dict_get_str [OF assms, of k d]
  by (cases "dict_get tags k (JStr d)") (simp_all add: tag_str_def)

text \<open>
  Claim C2, as stated, fails.  Rule 2 is "the configured name of the first endpoint, in config
  declaration order, whose url is a substring of the url tag and whose method matches": when
  that endpoint has no name (or an empty one) the code does not take its name, nor the name
  of a later matching endpoint, but goes on to rule 3, here the name tag "users".  And rule 4
  needs more than a url tag that exists: with the url tag \<^verbatim>\<open>""\<close> the label is "unknown".
\<close>

theorem unnamed_endpoint_counterexample:
  "matching_endpoint unnamed_config ''https://school.example/api/users'' ''GET'' = Some unnamed_cfg
   \<and> config_name unnamed_cfg = ''''
   \<and> resolve_endpoint no_str unnamed_config users_tags = Inr (JStr ''users'')
   \<and> resolve_endpoint no_str no_config [(''url'', JStr '''')] = Inr (JStr ''unknown'')"
  by code_simp

text \<open>
  Claim C2, amended: for a duration point whose tags are strings the label is determined by
  the first rule that applies, in this order: (1) the route tag if present and non-empty;
  (2) the configured name of the first endpoint, in configuration order, whose url with the
  leading slashes stripped is a substring of the url tag and whose method (GET when absent on
  either side) matches case-insensitively, if that name is non-empty (if it is empty or
  missing, the later endpoints are not looked at and rule 3 is next); (3) the name tag if
  present and non-empty; (4) the method tag as it is, a space and the last '/'-separated
  segment of the url tag, if the url tag is present and non-empty; (5) "unknown" otherwise.
\<close>

theorem endpoint_label_resolution:
  assumes "list_all (\<lambda>kv. is_str (snd kv)) tags"
  shows "resolve_endpoint fmt routes_config tags =
           Inr (JStr (label_of routes_config (tag_str tags ''route'' '''') (tag_str tags ''url'' '''')
                        (tag_str tags ''method'' ''GET'') (tag_str tags ''name'' '''')))"
proof -
  have t: "dict_get tags ''url'' (JStr '''') = JStr (tag_str tags ''url'' '''')"
    "dict_get tags ''method'' (JStr ''GET'') = JStr (tag_str tags ''method'' ''GET'')"
    "dict_get tags ''name'' (JStr '''') = JStr (tag_str tags ''name'' '''')"
    "dict_get tags ''route'' (JStr '''') = JStr (tag_str tags ''route'' '''')"
    using tag_str_eq [OF assms] by blast+
  show ?thesis
    unfolding resolve_endpoint_def t Let_def get_endpoint_info_matching
    by (cases "matching_endpoint routes_config (tag_str tags ''url'' '''') (tag_str tags ''method'' ''GET'')";
        cases "config_name (the (matching_endpoint routes_config (tag_str tags ''url'' '''')
                 (tag_str tags ''method'' ''GET'')))")
       (simp_all add: label_of_def fallback_label_def py_format_def split_slash_last
                      split_slash_nonempty)
qed

theorem endpoint_label_resolution_witness:
  "list_all (\<lambda>kv. is_str (snd kv)) students_tags
   \<and> label_of student_config (tag_str students_tags ''route'' '''') (tag_str students_tags ''url'' '''')
        (tag_str students_tags ''method'' ''GET'') (tag_str students_tags ''name'' '''')
      = ''Student List API''
   \<and> resolve_endpoint no_str student_config students_tags = Inr (JStr ''Student List API'')
   \<and> list_all (\<lambda>kv. is_str (snd kv)) [(''url'', JStr ''https://school.example/api/exams/42''),
                                       (''method'', JStr ''put'')]
   \<and> resolve_endpoint no_str student_config
        [(''url'', JStr ''https://school.example/api/exams/42''), (''method'', JStr ''put'')]
      = Inr (JStr ''put 42'')"
proof -
  have a: "list_all (\<lambda>kv. is_str (snd kv)) students_tags"
    by code_simp
  have b: "label_of student_config (tag_str students_tags ''route'' '''') (tag_str students_tags ''url'' '''')
        (tag_str students_tags ''method'' ''GET'') (tag_str students_tags ''name'' '''')
      = ''Student List API''"
    by code_simp
  have c: "list_all (\<lambda>kv. is_str (snd kv)) [(''url'', JStr ''https://school.example/api/exams/42''),
                                       (''method'', JStr ''put'')]"
    by code_simp
  have d: "label_of student_config
        (tag_str [(''url'', JStr ''https://school.example/api/exams/42''), (''method'', JStr ''put'')] ''route'' '''')
        (tag_str [(''url'', JStr ''https://school.example/api/exams/42''), (''method'', JStr ''put'')] ''url'' '''')
        (tag_str [(''url'', JStr ''https://school.example/api/exams/42''), (''method'', JStr ''put'')] ''method'' ''GET'')
        (tag_str [(''url'', JStr ''https://school.example/api/exams/42''), (''method'', JStr ''put'')] ''name'' '''')
      = ''put 42''"
    by code_simp
  show ?thesis
    using endpoint_label_resolution [OF a, of no_str student_config]
          endpoint_label_resolution [OF c, of no_str student_config] a b c d
    by simp
qed

subsection \<open>Dropped lines\<close>

lemma process_line_dropped:
  assumes "dropped line"
  shows "\<exists>r. process_line fmt routes_config line st = (st, r) \<and> (r = None \<or> r = Some JSONDecodeError \<or> r = Some TypeError)"
proof (cases line)
  case Not_json
  then show ?thesis by (simp add: process_line_def)
next
  case Too_deep
  then show ?thesis using assms by (simp add: dropped_def)
next
  case (Loaded v)
  show ?thesis
  proof (cases v)
    case (JObj data)
    show ?thesis
    proof (cases "dict_get data ''type'' JNull = JStr ''Point''
                  \<and> dict_get data ''metric'' JNull = JStr ''http_req_duration''")
      case True
      then obtain point_data where pd: "map_of (rev data) ''data'' = Some (JObj point_data)"
        using assms Loaded JObj by (auto simp: dropped_def split: option.splits json.splits if_splits)
      have v: "case map_of (rev point_data) ''value'' of
                    None \<Rightarrow> True
                  | Some (JNum r) \<Rightarrow> r \<le> 0
                  | Some (JBool b) \<Rightarrow> \<not> b
                  | Some _ \<Rightarrow> True"
        using assms Loaded JObj True pd by (simp add: dropped_def)
      have "py_gt0 (dict_get point_data ''value'' (JNum 0)) = Inr False
          \<or> py_gt0 (dict_get point_data ''value'' (JNum 0)) = Inl TypeError"
        using v by (auto simp: dict_get_def split: option.splits json.splits)
      then show ?thesis
        using Loaded JObj True pd
        by (auto simp: process_line_def handle_duration_def Let_def)
    next
      case False
      then show ?thesis
        using assms Loaded JObj
        by (auto simp: process_line_def dropped_def split: if_splits)
    qed
  qed (use Loaded in \<open>simp_all add: process_line_def\<close>)
qed

text \<open>The value \<^verbatim>\<open>true\<close> is a duration: the point is counted, with the response time 1.\<close>

lemma true_value_counted:
  "\<not> dropped true_point
   \<and> map_sum id (\<lambda>st. (total_requests st, response_times st))
        (analyze_lines no_str no_config [Text true_point] init_state) = Inr (1, [1])"
  by code_simp

text \<open>
  Claim C8, as stated, fails.  A duration record without \<^verbatim>\<open>data\<close> fails to parse as a
  recognized record, but \<^verbatim>\<open>data['data']\<close> raises \<^verbatim>\<open>KeyError\<close>, which the handler at line
  155 does not catch: the analysis of the batch aborts and the request on the next line is
  never read.  So it is with a line of bytes that are not text (\<^verbatim>\<open>UnicodeDecodeError\<close> in
  the \<^verbatim>\<open>for\<close> statement of line 88, outside the \<^verbatim>\<open>try\<close>) and with a line nested too deep
  for \<^verbatim>\<open>json.loads\<close> (\<^verbatim>\<open>RecursionError\<close>).  A request whose status tag is not a number
  raises \<^verbatim>\<open>ValueError\<close> at line 151, after the request has been counted.  And there is no
  tally of skipped lines: the only counter that a dropped line advances, \<^verbatim>\<open>line_count\<close>,
  counts every line that is read.
\<close>

theorem missing_data_counterexample:
  "analyze_lines no_str no_config [Text missing_data_point, Text good_point] init_state = Inl KeyError
   \<and> analyze_k6_json_with_timeline no_str no_config (Some [Text missing_data_point, Text good_point])
       = Inl KeyError
   \<and> analyze_k6_json_with_timeline no_str no_config (Some [Undecodable, Text good_point])
       = Inl UnicodeDecodeError
   \<and> analyze_k6_json_with_timeline no_str no_config (Some [Text Too_deep, Text good_point])
       = Inl RecursionError
   \<and> snd (process_line no_str no_config bad_status_point init_state) = Some ValueError
   \<and> total_requests (fst (process_line no_str no_config bad_status_point init_state)) = 1
   \<and> map_sum id line_count (analyze_lines no_str no_config [Text Not_json, Text good_point] init_state)
       = Inr 2"
  by code_simp

text \<open>
  Claim C8, amended: every line of text for which \<^verbatim>\<open>json.loads\<close> raises
  \<^verbatim>\<open>JSONDecodeError\<close>, or which decodes to a value that is not an object, or to an object
  that is not a \<^verbatim>\<open>Point\<close> of the metric \<^verbatim>\<open>vus\<close> or \<^verbatim>\<open>http_req_duration\<close>, or to a
  duration point whose \<^verbatim>\<open>data\<close> is an object with a value that is absent, is \<^verbatim>\<open>null\<close>, a
  string, an array or an object, is \<^verbatim>\<open>false\<close>, or is a number that is not strictly positive,
  is dropped silently: it leaves the whole state of the analyzer (counts, errors, samples,
  timelines) unchanged, raises nothing that leaves the loop, and the remaining lines are
  processed as if it had not been there, apart from the line counter, which counts every
  line that is read.
\<close>

theorem dropped_line_leaves_state:
  assumes "dropped line"
  shows "(\<exists>r. process_line fmt routes_config line st = (st, r)
              \<and> (r = None \<or> r = Some JSONDecodeError \<or> r = Some TypeError))
       \<and> analyze_lines fmt routes_config (Text line # rest) st
           = analyze_lines fmt routes_config rest (st\<lparr>line_count := line_count st + 1\<rparr>)"
proof -
  obtain r where r: "process_line fmt routes_config line (st\<lparr>line_count := line_count st + 1\<rparr>)
                       = (st\<lparr>line_count := line_count st + 1\<rparr>, r)"
    and c: "r = None \<or> r = Some JSONDecodeError \<or> r = Some TypeError"
    using process_line_dropped [OF assms] by blast
  have "analyze_lines fmt routes_config (Text line # rest) st
           = analyze_lines fmt routes_config rest (st\<lparr>line_count := line_count st + 1\<rparr>)"
    unfolding analyze_lines.simps r using c by (auto simp: caught_def)
  then show ?thesis
    using process_line_dropped [OF assms] by simp
qed

theorem dropped_line_leaves_state_witness:
  "dropped zero_point \<and> dropped Not_json \<and> dropped (Loaded (JArr []))
   \<and> process_line no_str no_config zero_point init_state = (init_state, None)
   \<and> analyze_lines no_str no_config
        [Text zero_point, Text Not_json, Text (Loaded (JArr [])), Text good_point] init_state
      = analyze_lines no_str no_config [Text good_point] (init_state\<lparr>line_count := 3\<rparr>)"
proof -
  have d: "dropped zero_point" "dropped Not_json" "dropped (Loaded (JArr []))"
    by code_simp+
  have p: "process_line no_str no_config zero_point init_state = (init_state, None)"
    by code_simp
  have st: "(init_state\<lparr>line_count := line_count init_state + 1\<rparr>
             \<lparr>line_count := line_count (init_state\<lparr>line_count := line_count init_state + 1\<rparr>) + 1\<rparr>
             \<lparr>line_count := line_count (init_state\<lparr>line_count := line_count init_state + 1\<rparr>
                \<lparr>line_count := line_count (init_state\<lparr>line_count := line_count init_state + 1\<rparr>) + 1\<rparr>) + 1\<rparr>) = init_state\<lparr>line_count := 3\<rparr>"
    by (simp add: init_state_def)
  have e: "analyze_lines no_str no_config
             [Text zero_point, Text Not_json, Text (Loaded (JArr [])), Text good_point] init_state
      = analyze_lines no_str no_config [Text good_point]
          (init_state\<lparr>line_count := line_count init_state + 1\<rparr>
             \<lparr>line_count := line_count (init_state\<lparr>line_count := line_count init_state + 1\<rparr>) + 1\<rparr>
             \<lparr>line_count := line_count (init_state\<lparr>line_count := line_count init_state + 1\<rparr>
                \<lparr>line_count := line_count (init_state\<lparr>line_count := line_count init_state + 1\<rparr>) + 1\<rparr>) + 1\<rparr>)"
    by (simp only: dropped_line_leaves_state [OF d(1), THEN conjunct2]
                   dropped_line_leaves_state [OF d(2), THEN conjunct2]
                   dropped_line_leaves_state [OF d(3), THEN conjunct2])
  have f: "analyze_lines no_str no_config
             [Text zero_point, Text Not_json, Text (Loaded (JArr [])), Text good_point] init_state
      = analyze_lines no_str no_config [Text good_point] (init_state\<lparr>line_count := 3\<rparr>)"
    using e unfolding st .
  show ?thesis
    using d p f by - (intro conjI; assumption)
qed

end
